theory Spec2Isabelle
  imports Complex_Main "HOL-Library.Sublist"
begin

section \<open>Go strings and the standard-library functions the program calls\<close>

text \<open>
  A Go string is a sequence of bytes: \<open>len\<close> counts bytes and \<open>s[:n]\<close> slices bytes.
  It is modelled by \<open>string\<close>, a list of 8-bit characters. The model is the Unix build
  of the program (\<open>os.PathSeparator\<close> is \<open>/\<close>) on a 64-bit platform (\<open>int\<close> is
  64 bits wide).

  \<open>strings.ToLower\<close> and \<open>strings.TrimSpace\<close> have an ASCII path, modelled here byte by
  byte, and hand every string with a byte above \<open>0x7F\<close> to the Unicode tables. The
  tables are not part of the repository: what they compute is the record \<open>unicode\<close>,
  a parameter of every function that reaches them.
\<close>

record unicode =
  MapToLower :: "string \<Rightarrow> string"
  TrimFuncIsSpace :: "string \<Rightarrow> string"
  TrimRightFuncIsSpace :: "string \<Rightarrow> string"
  DecodeRunes :: "string \<Rightarrow> nat list"
  IsUpperTable :: "nat \<Rightarrow> bool"
  IsLowerTable :: "nat \<Rightarrow> bool"
  IsDigitTable :: "nat \<Rightarrow> bool"
  ToLowerTable :: "nat \<Rightarrow> nat"
  EncodeRune :: "nat \<Rightarrow> string"

definition RuneSelf :: nat where
  "RuneSelf = 128"

definition isASCII :: "string \<Rightarrow> bool" where
  "isASCII s = list_all (\<lambda>c. of_char c < RuneSelf) s"

definition isUpperByte :: "char \<Rightarrow> bool" where
  "isUpperByte c = (65 \<le> (of_char c :: nat) \<and> (of_char c :: nat) \<le> 90)"

definition lowerByte :: "char \<Rightarrow> char" where
  "lowerByte c = (if isUpperByte c then char_of ((of_char c :: nat) + 32) else c)"

text \<open>\<open>strings.ToLower\<close>: ASCII strings are lowered byte by byte, any other string goes
  through \<open>strings.Map(unicode.ToLower, s)\<close>.\<close>

definition ToLower :: "unicode \<Rightarrow> string \<Rightarrow> string" where
  "ToLower U s = (if isASCII s then map lowerByte s else MapToLower U s)"

text \<open>The six bytes of \<open>asciiSpace\<close>: tab, line feed, vertical tab, form feed, carriage
  return and space.\<close>

definition asciiSpace :: "char \<Rightarrow> bool" where
  "asciiSpace c = ((of_char c :: nat) \<in> {9, 10, 11, 12, 13, 32})"

text \<open>\<open>strings.TrimSpace\<close>: skip ASCII space from the left; at a byte above \<open>0x7F\<close> hand
  the rest to \<open>TrimFunc(s, unicode.IsSpace)\<close>; then the same from the right, handing over to
  \<open>TrimRightFunc\<close>.\<close>

definition TrimSpace :: "unicode \<Rightarrow> string \<Rightarrow> string" where
  "TrimSpace U s =
     (case dropWhile asciiSpace s of
        [] \<Rightarrow> []
      | c # cs \<Rightarrow>
          if \<not> of_char c < RuneSelf then TrimFuncIsSpace U (c # cs)
          else (case dropWhile asciiSpace (rev (c # cs)) of
                  [] \<Rightarrow> []
                | d # ds \<Rightarrow>
                    if \<not> of_char d < RuneSelf then TrimRightFuncIsSpace U (rev (d # ds))
                    else rev (d # ds)))"

text \<open>\<open>strings.ReplaceAll\<close> for a non-empty \<open>old\<close>: the non-overlapping occurrences are
  replaced from the left. The program only ever passes a one-byte \<open>old\<close>; for the empty
  \<open>old\<close>, which Go matches at every rune boundary, the model leaves the string as it is.\<close>

function ReplaceAll :: "string \<Rightarrow> string \<Rightarrow> string \<Rightarrow> string" where
  "ReplaceAll [] old new = []"
| "ReplaceAll (c # cs) old new =
     (if old \<noteq> [] \<and> prefix old (c # cs)
      then new @ ReplaceAll (drop (length old) (c # cs)) old new
      else c # ReplaceAll cs old new)"
  by pat_completeness auto
termination
  by (relation "measure (\<lambda>(s, old, new). length s)") auto

text \<open>\<open>strings.Count\<close> for a non-empty \<open>substr\<close>: the number of non-overlapping
  occurrences.\<close>

function Count :: "string \<Rightarrow> string \<Rightarrow> nat" where
  "Count [] substr = 0"
| "Count (c # cs) substr =
     (if substr \<noteq> [] \<and> prefix substr (c # cs)
      then Suc (Count (drop (length substr) (c # cs)) substr)
      else Count cs substr)"
  by pat_completeness auto
termination
  by (relation "measure (\<lambda>(s, substr). length s)") auto

definition Repeat :: "string \<Rightarrow> nat \<Rightarrow> string" where
  "Repeat s n = concat (replicate n s)"

text \<open>The instance of the tables that knows no letter, digit or space beyond ASCII. On an
  ASCII string no function of the model consults the tables, so concrete runs on ASCII
  input are evaluated with it.\<close>

definition asciiOnly :: unicode where
  "asciiOnly = \<lparr> MapToLower = (\<lambda>s. s), TrimFuncIsSpace = (\<lambda>s. s),
     TrimRightFuncIsSpace = (\<lambda>s. s), DecodeRunes = map of_char,
     IsUpperTable = (\<lambda>r. False), IsLowerTable = (\<lambda>r. False),
     IsDigitTable = (\<lambda>r. False), ToLowerTable = (\<lambda>r. r),
     EncodeRune = (\<lambda>r. [char_of r]) \<rparr>"

subsection \<open>strconv and fmt\<close>

datatype error = Err string | ErrNotExist string

text \<open>\<open>err.Error()\<close>, the text that \<open>%v\<close> prints, and \<open>os.IsNotExist(err)\<close>.\<close>

fun Error :: "error \<Rightarrow> string" where
  "Error (Err msg) = msg"
| "Error (ErrNotExist msg) = msg"

fun IsNotExist :: "error \<Rightarrow> bool" where
  "IsNotExist (Err msg) = False"
| "IsNotExist (ErrNotExist msg) = True"

definition EOF :: error where
  "EOF = Err ''EOF''"

definition isDigitByte :: "char \<Rightarrow> bool" where
  "isDigitByte c = (48 \<le> (of_char c :: nat) \<and> (of_char c :: nat) \<le> 57)"

definition digitsValue :: "string \<Rightarrow> int" where
  "digitsValue s = foldl (\<lambda>n ch. n * 10 + (of_char ch - 48)) 0 s"

text \<open>\<open>strconv.Atoi\<close>: an optional sign and then decimal digits only; a value outside the
  64-bit \<open>int\<close> is a range error. The program never prints the error, so its text is not
  Go's.\<close>

definition Atoi :: "string \<Rightarrow> error + int" where
  "Atoi s =
     (let neg = (s \<noteq> [] \<and> hd s = CHR ''-'');
          digits = (if s \<noteq> [] \<and> (hd s = CHR ''-'' \<or> hd s = CHR ''+'') then tl s else s)
      in if digits = [] \<or> \<not> list_all isDigitByte digits then Inl (Err ''invalid syntax'')
         else (let n = (if neg then - digitsValue digits else digitsValue digits)
               in if n < - (2 ^ 63) \<or> 2 ^ 63 - 1 < n then Inl (Err ''value out of range'')
                  else Inr n))"

text \<open>The verb \<open>%d\<close> of \<open>fmt.Printf\<close> on a non-negative integer.\<close>

fun itoa :: "nat \<Rightarrow> string" where
  "itoa n = (if n < 10 then [char_of (48 + n)] else itoa (n div 10) @ [char_of (48 + n mod 10)])"

subsection \<open>path/filepath\<close>

fun splitOn :: "char \<Rightarrow> string \<Rightarrow> string list" where
  "splitOn sep [] = [[]]"
| "splitOn sep (c # cs) =
     (if c = sep then [] # splitOn sep cs
      else (case splitOn sep cs of [] \<Rightarrow> [[c]] | x # xs \<Rightarrow> (c # x) # xs))"

definition joinWith :: "string \<Rightarrow> string list \<Rightarrow> string" where
  "joinWith sep elems = (case elems of [] \<Rightarrow> [] | x # xs \<Rightarrow> x @ concat (map (\<lambda>y. sep @ y) xs))"

text \<open>\<open>filepath.Clean\<close> works through the elements of the path and keeps the elements
  written so far: an empty element and \<open>.\<close> are dropped, \<open>..\<close> removes the last real
  element, is dropped at the root, and is kept at the head of a relative path.\<close>

definition cleanStep :: "bool \<Rightarrow> string list \<Rightarrow> string \<Rightarrow> string list" where
  "cleanStep rooted out elem =
     (if elem = [] \<or> elem = ''.'' then out
      else if elem = ''..'' then
        (if out \<noteq> [] \<and> last out \<noteq> ''..'' then butlast out
         else if \<not> rooted then out @ [''..'']
         else out)
      else out @ [elem])"

definition Clean :: "string \<Rightarrow> string" where
  "Clean path =
     (if path = [] then ''.''
      else (let rooted = (hd path = CHR ''/'');
                out = (if rooted then ''/'' else []) @
                      joinWith ''/'' (foldl (cleanStep rooted) [] (splitOn (CHR ''/'') path))
            in if out = [] then ''.'' else out))"

text \<open>\<open>filepath.Join\<close>: the elements from the first non-empty one on, joined with the
  separator and cleaned; the empty string when every element is empty.\<close>

definition Join :: "string list \<Rightarrow> string" where
  "Join elem =
     (case dropWhile (\<lambda>e. e = []) elem of
        [] \<Rightarrow> []
      | e # es \<Rightarrow> Clean (joinWith ''/'' (e # es)))"

definition IsAbs :: "string \<Rightarrow> bool" where
  "IsAbs path = (path \<noteq> [] \<and> hd path = CHR ''/'')"

section \<open>The process and its environment\<close>

text \<open>
  What the program does to the outside is recorded as a list of events, in order. What
  the outside answers (the result of a system call, of an external command, of the
  embedded template files, of the JSON and template libraries) is the record \<open>world\<close>:
  every answer may depend on the events so far, so creating a directory or running a
  command can change what a later call finds.
\<close>

datatype event =
    Print string
  | Sleep nat
  | MkdirAll string
  | WriteFile string string
  | Chdir string
  | Run string "string list" string

text \<open>What \<open>os.ReadDir\<close> finds at a path: not a directory, a directory with its entries
  in the order of the listing, or a directory whose listing fails.\<close>

datatype fsnode = NotDir | Directory "(string \<times> fsnode) list" | Unreadable error

fun ReadDir :: "fsnode \<Rightarrow> error + (string \<times> fsnode) list" where
  "ReadDir (Directory entries) = Inr entries"
| "ReadDir (Unreadable err) = Inl err"
| "ReadDir NotDir = Inl (Err ''not a directory'')"

fun IsDir :: "fsnode \<Rightarrow> bool" where
  "IsDir NotDir = False"
| "IsDir (Directory entries) = True"
| "IsDir (Unreadable err) = True"

record ProjectConfig =
  ProjectName :: string
  CompanyName :: string
  UserName :: string
  UserEmail :: string

record UserConfig =
  userCompanyName :: string
  userUserName :: string
  userUserEmail :: string

record TemplateData =
  dataProject :: string
  dataProjectName :: string
  dataDescription :: string
  dataDate :: string
  dataCompanyName :: string
  dataUserName :: string
  dataUserEmail :: string
  dataScriptName :: string
  dataScriptId :: string
  dataScriptPath :: string
  dataDeploymentId :: string
  dataRecordType :: string

record world =
  GetwdError :: "event list \<Rightarrow> error option"
  UserHomeDirResult :: "event list \<Rightarrow> error + string"
  StatResult :: "event list \<Rightarrow> string \<Rightarrow> error + bool"
  ReadFileResult :: "event list \<Rightarrow> string \<Rightarrow> error + string"
  DirTree :: "event list \<Rightarrow> string \<Rightarrow> fsnode"
  MkdirAllResult :: "event list \<Rightarrow> string \<Rightarrow> error option"
  WriteFileResult :: "event list \<Rightarrow> string \<Rightarrow> string \<Rightarrow> error option"
  ChdirResult :: "event list \<Rightarrow> string \<Rightarrow> error option"
  RunResult :: "event list \<Rightarrow> string \<Rightarrow> string list \<Rightarrow> string \<Rightarrow> error option"
  LookPathResult :: "event list \<Rightarrow> string \<Rightarrow> error option"
  CurrentUser :: "event list \<Rightarrow> error + string"
  Today :: "event list \<Rightarrow> string"
  templateFS :: "string \<Rightarrow> error + string"
  initTemplateFS :: "string \<Rightarrow> error + string"
  UnmarshalProjectConfig :: "string \<Rightarrow> error + ProjectConfig"
  UnmarshalUserConfig :: "string \<Rightarrow> error + UserConfig"
  MarshalProjectConfig :: "ProjectConfig \<Rightarrow> error + string"
  MarshalUserConfig :: "UserConfig \<Rightarrow> error + string"
  ParseError :: "string \<Rightarrow> error option"
  ExecuteResult :: "string \<Rightarrow> TemplateData \<Rightarrow> error + string"
  ExecuteMapResult :: "string \<Rightarrow> (string \<times> string) list \<Rightarrow> error + string"

text \<open>
  The state of the process: the lines still to be read from standard input (a read past
  the last line is \<open>io.EOF\<close>), the working directory, and the events so far.
  A procedure takes the state and gives the new state with either the value it returns
  or the status \<open>os.Exit\<close> was called with: \<open>os.Exit\<close> ends the process at once, nothing
  after it runs, deferred calls included.
\<close>

record pstate =
  stdin :: "string list"
  cwd :: string
  history :: "event list"

datatype 'a outcome = Exit int | Return 'a

type_synonym 'a proc = "pstate \<Rightarrow> pstate \<times> 'a outcome"

definition ret :: "'a \<Rightarrow> 'a proc" where
  "ret a s = (s, Return a)"

definition bind :: "'a proc \<Rightarrow> ('a \<Rightarrow> 'b proc) \<Rightarrow> 'b proc" where
  "bind m k s = (case m s of (s', Exit code) \<Rightarrow> (s', Exit code) | (s', Return a) \<Rightarrow> k a s')"

definition seq :: "unit proc \<Rightarrow> 'b proc \<Rightarrow> 'b proc" where
  "seq m k = bind m (\<lambda>u. k)"

definition emit :: "event \<Rightarrow> unit proc" where
  "emit e s = (s\<lparr>history := history s @ [e]\<rparr>, Return ())"

definition os_Exit :: "int \<Rightarrow> 'a proc" where
  "os_Exit code s = (s, Exit code)"

text \<open>\<open>fmt.Print\<close>, \<open>fmt.Printf\<close> and \<open>fmt.Println\<close> with the text already formatted.\<close>

definition fmt_Print :: "string \<Rightarrow> unit proc" where
  "fmt_Print text = emit (Print text)"

text \<open>Print the lines, then \<open>os.Exit\<close>.\<close>

fun fatal :: "string list \<Rightarrow> int \<Rightarrow> 'a proc" where
  "fatal [] code = os_Exit code"
| "fatal (line # lines) code = seq (fmt_Print line) (fatal lines code)"

text \<open>\<open>reader.ReadString('\n')\<close> on a reader of standard input: the next line, or
  \<open>io.EOF\<close>.\<close>

definition ReadString :: "(error + string) proc" where
  "ReadString s =
     (case stdin s of
        [] \<Rightarrow> (s, Return (Inl EOF))
      | line # rest \<Rightarrow> (s\<lparr>stdin := rest\<rparr>, Return (Inr line)))"

definition os_Getwd :: "world \<Rightarrow> pstate \<Rightarrow> error + string" where
  "os_Getwd w s = (case GetwdError w (history s) of Some err \<Rightarrow> Inl err | None \<Rightarrow> Inr (cwd s))"

definition os_Stat :: "world \<Rightarrow> pstate \<Rightarrow> string \<Rightarrow> error + bool" where
  "os_Stat w s path = StatResult w (history s) path"

definition os_MkdirAll :: "world \<Rightarrow> string \<Rightarrow> error option proc" where
  "os_MkdirAll w path s =
     (s\<lparr>history := history s @ [MkdirAll path]\<rparr>, Return (MkdirAllResult w (history s) path))"

definition os_WriteFile :: "world \<Rightarrow> string \<Rightarrow> string \<Rightarrow> error option proc" where
  "os_WriteFile w path content s =
     (s\<lparr>history := history s @ [WriteFile path content]\<rparr>,
      Return (WriteFileResult w (history s) path content))"

text \<open>\<open>os.Chdir\<close> changes the working directory when it succeeds.\<close>

definition os_Chdir :: "world \<Rightarrow> string \<Rightarrow> error option proc" where
  "os_Chdir w dir s =
     (case ChdirResult w (history s) dir of
        Some err \<Rightarrow> (s\<lparr>history := history s @ [Chdir dir]\<rparr>, Return (Some err))
      | None \<Rightarrow> (s\<lparr>cwd := dir, history := history s @ [Chdir dir]\<rparr>, Return None))"

text \<open>\<open>cmd.Run()\<close> of an \<open>exec.Command\<close> with its name, arguments and \<open>Dir\<close>.\<close>

definition exec_Run :: "world \<Rightarrow> string \<Rightarrow> string list \<Rightarrow> string \<Rightarrow> error option proc" where
  "exec_Run w name args dir s =
     (s\<lparr>history := history s @ [Run name args dir]\<rparr>, Return (RunResult w (history s) name args dir))"

section \<open>Preferences (package cmd, the configuration file)\<close>

text \<open>\<open>LoadConfig\<close> reads the project configuration from the \<open>.netsuite-cli\<close> file in
  the current directory.\<close>

definition LoadConfig :: "world \<Rightarrow> pstate \<Rightarrow> error + ProjectConfig" where
  "LoadConfig w s =
     (case os_Getwd w s of
        Inl err \<Rightarrow> Inl (Err (''error getting current directory: '' @ Error err))
      | Inr wd \<Rightarrow>
          (let configPath = Join [wd, ''.netsuite-cli''] in
           if (case os_Stat w s configPath of Inl err \<Rightarrow> IsNotExist err | Inr info \<Rightarrow> False)
           then Inl (Err ''.netsuite-cli file not found. Please run 'create' first'')
           else (case ReadFileResult w (history s) configPath of
                   Inl err \<Rightarrow> Inl (Err (''error reading config file: '' @ Error err))
                 | Inr data \<Rightarrow>
                     (case UnmarshalProjectConfig w data of
                        Inl err \<Rightarrow> Inl (Err (''error parsing config file: '' @ Error err))
                      | Inr config \<Rightarrow> Inr config))))"

text \<open>\<open>SaveConfig\<close> writes the project configuration to the \<open>.netsuite-cli\<close> file in the
  given directory.\<close>

definition SaveConfig :: "world \<Rightarrow> string \<Rightarrow> ProjectConfig \<Rightarrow> error option proc" where
  "SaveConfig w dir config =
     (let configPath = Join [dir, ''.netsuite-cli''] in
      case MarshalProjectConfig w config of
        Inl err \<Rightarrow> ret (Some (Err (''error marshaling config: '' @ Error err)))
      | Inr data \<Rightarrow>
          bind (os_WriteFile w configPath data) (\<lambda>r.
            case r of
              Some err \<Rightarrow> ret (Some (Err (''error writing config file: '' @ Error err)))
            | None \<Rightarrow> ret None))"

text \<open>\<open>LoadUserConfig\<close> reads the user configuration from the \<open>.netsuite-cli\<close> file in the
  home directory; \<open>Inr None\<close> is Go's \<open>nil, nil\<close>.\<close>

definition LoadUserConfig :: "world \<Rightarrow> pstate \<Rightarrow> error + UserConfig option" where
  "LoadUserConfig w s =
     (case UserHomeDirResult w (history s) of
        Inl err \<Rightarrow> Inl (Err (''error getting home directory: '' @ Error err))
      | Inr homeDir \<Rightarrow>
          (let configPath = Join [homeDir, ''.netsuite-cli''] in
           if (case os_Stat w s configPath of Inl err \<Rightarrow> IsNotExist err | Inr info \<Rightarrow> False)
           then Inr None
           else (case ReadFileResult w (history s) configPath of
                   Inl err \<Rightarrow> Inl (Err (''error reading config file: '' @ Error err))
                 | Inr data \<Rightarrow>
                     (case UnmarshalUserConfig w data of
                        Inl err \<Rightarrow> Inl (Err (''error parsing config file: '' @ Error err))
                      | Inr config \<Rightarrow> Inr (Some config)))))"

text \<open>\<open>SaveUserConfig\<close> writes the user configuration to the \<open>.netsuite-cli\<close> file in the
  home directory.\<close>

definition SaveUserConfig :: "world \<Rightarrow> UserConfig \<Rightarrow> error option proc" where
  "SaveUserConfig w config s =
     (case UserHomeDirResult w (history s) of
        Inl err \<Rightarrow> (s, Return (Some (Err (''error getting home directory: '' @ Error err))))
      | Inr homeDir \<Rightarrow>
          (let configPath = Join [homeDir, ''.netsuite-cli''] in
           case MarshalUserConfig w config of
             Inl err \<Rightarrow> (s, Return (Some (Err (''error marshaling config: '' @ Error err))))
           | Inr data \<Rightarrow>
               bind (os_WriteFile w configPath data) (\<lambda>r.
                 case r of
                   Some err \<Rightarrow> ret (Some (Err (''error writing config file: '' @ Error err)))
                 | None \<Rightarrow> ret None) s))"

text \<open>\<open>GetCompanyPrefix\<close> generates the prefix from the company name.\<close>

definition GetCompanyPrefix :: "unicode \<Rightarrow> string \<Rightarrow> string" where
  "GetCompanyPrefix U companyName0 =
     (let companyName = TrimSpace U companyName0 in
      if length companyName = 0 then ''com''
      else (let prefix0 = ToLower U companyName in
            if length prefix0 > 3 then take 3 prefix0 else prefix0))"

section \<open>Adding a script (package cmd, the add command)\<close>

text \<open>\<open>getRecordType\<close> maps a script type to its NetSuite record type.\<close>

definition recordTypeMap :: "(string \<times> string) list" where
  "recordTypeMap =
     [(''client'', ''clientscript''),
      (''mapreduce'', ''mapreducescript''),
      (''massupdate'', ''massupdatescript''),
      (''portlet'', ''portlet''),
      (''restlet'', ''restlet''),
      (''scheduled'', ''scheduledscript''),
      (''suitelet'', ''suitelet''),
      (''userevent'', ''usereventscript''),
      (''workflowaction'', ''workflowactionscript'')]"

definition getRecordType :: "string \<Rightarrow> string" where
  "getRecordType scriptType =
     (case map_of recordTypeMap scriptType of Some recordType \<Rightarrow> recordType | None \<Rightarrow> [])"

text \<open>The runes of a string and their classes: an ASCII byte is its own rune, with the
  classes of ASCII; everything else is the tables'.\<close>

definition runes :: "unicode \<Rightarrow> string \<Rightarrow> nat list" where
  "runes U s = (if isASCII s then map of_char s else DecodeRunes U s)"

definition IsUpper :: "unicode \<Rightarrow> nat \<Rightarrow> bool" where
  "IsUpper U r = (if r < RuneSelf then 65 \<le> r \<and> r \<le> 90 else IsUpperTable U r)"

definition IsLower :: "unicode \<Rightarrow> nat \<Rightarrow> bool" where
  "IsLower U r = (if r < RuneSelf then 97 \<le> r \<and> r \<le> 122 else IsLowerTable U r)"

definition IsDigit :: "unicode \<Rightarrow> nat \<Rightarrow> bool" where
  "IsDigit U r = (if r < RuneSelf then 48 \<le> r \<and> r \<le> 57 else IsDigitTable U r)"

definition ToLowerRune :: "unicode \<Rightarrow> nat \<Rightarrow> nat" where
  "ToLowerRune U r =
     (if r < RuneSelf then (if 65 \<le> r \<and> r \<le> 90 then r + 32 else r) else ToLowerTable U r)"

definition WriteRune :: "unicode \<Rightarrow> nat \<Rightarrow> string" where
  "WriteRune U r = (if r < RuneSelf then [char_of r] else EncodeRune U r)"

text \<open>The regular expression \<open>_+\<close> replaced by one underscore, and
  \<open>strings.Trim(s, "_")\<close>.\<close>

fun collapseUnderscores :: "string \<Rightarrow> string" where
  "collapseUnderscores [] = []"
| "collapseUnderscores (c # cs) =
     (if c = CHR ''_'' \<and> cs \<noteq> [] \<and> hd cs = CHR ''_'' then collapseUnderscores cs
      else c # collapseUnderscores cs)"

definition trimUnderscores :: "string \<Rightarrow> string" where
  "trimUnderscores s =
     rev (dropWhile (\<lambda>d. d = CHR ''_'') (rev (dropWhile (\<lambda>d. d = CHR ''_'') s)))"

text \<open>\<open>toSnakeCase\<close>: the loop over the runes keeps the text written so far and
  \<open>prevLower\<close>; \<open>i\<close> is the index of the rune.\<close>

definition snakeStep :: "unicode \<Rightarrow> string \<times> bool \<Rightarrow> nat \<times> nat \<Rightarrow> string \<times> bool" where
  "snakeStep U st ir =
     (case st of (result, prevLower) \<Rightarrow>
      case ir of (i, r) \<Rightarrow>
        if IsUpper U r
        then ((if i > 0 \<and> prevLower then result @ ''_'' else result) @ WriteRune U (ToLowerRune U r),
              False)
        else if IsLower U r \<or> IsDigit U r then (result @ WriteRune U r, True)
        else ((if i > 0 \<and> length result > 0 \<and> last result \<noteq> CHR ''_'' then result @ ''_''
               else result),
              False))"

definition toSnakeCase :: "unicode \<Rightarrow> string \<Rightarrow> string" where
  "toSnakeCase U s =
     (if s = [] then []
      else (let rs = runes U s;
                snake = fst (foldl (snakeStep U) ([], False) (zip [0..<length rs] rs))
            in ToLower U (trimUnderscores (collapseUnderscores snake))))"

text \<open>\<open>GetTemplates\<close> retrieves the TypeScript and XML templates of a script type from
  the embedded files; a template that cannot be read is a warning and the empty
  template.\<close>

record ScriptTemplates =
  TypeScript :: string
  XML :: string

definition GetTemplates :: "world \<Rightarrow> string \<Rightarrow> ScriptTemplates proc" where
  "GetTemplates w scriptType =
     (let tsPath = ''templates/'' @ scriptType @ ''.ts.tmpl'';
          xmlPath = ''templates/'' @ scriptType @ ''.xml.tmpl''
      in bind (case templateFS w tsPath of
                 Inl err \<Rightarrow>
                   seq (fmt_Print (''Warning: Could not read TypeScript template for '' @ scriptType
                          @ '': '' @ Error err @ ''\<newline>''))
                       (ret [])
               | Inr content \<Rightarrow> ret content) (\<lambda>tsContent.
         bind (case templateFS w xmlPath of
                 Inl err \<Rightarrow>
                   seq (fmt_Print (''Warning: Could not read XML template for '' @ scriptType
                          @ '': '' @ Error err @ ''\<newline>''))
                       (ret [])
               | Inr content \<Rightarrow> ret content) (\<lambda>xmlContent.
         ret \<lparr>TypeScript = tsContent, XML = xmlContent\<rparr>)))"

text \<open>\<open>renderAndWrite\<close> renders a template with the data and writes it to the path.\<close>

definition renderAndWrite :: "world \<Rightarrow> string \<Rightarrow> string \<Rightarrow> TemplateData \<Rightarrow> unit proc" where
  "renderAndWrite w path tmplStr data =
     (case ParseError w tmplStr of
        Some err \<Rightarrow> fatal [''Error parsing template: '' @ Error err @ ''\<newline>''] 1
      | None \<Rightarrow>
          (case ExecuteResult w tmplStr data of
             Inl err \<Rightarrow> fatal [''Error executing template: '' @ Error err @ ''\<newline>''] 1
           | Inr buf \<Rightarrow>
               bind (os_WriteFile w path buf) (\<lambda>r.
                 case r of
                   Some err \<Rightarrow>
                     fatal [''Error writing file '' @ path @ '': '' @ Error err @ ''\<newline>''] 1
                 | None \<Rightarrow> ret ())))"

text \<open>\<open>findSuiteScriptsDir\<close> locates the SuiteScripts directory in the project, and
  creates it where the layout of the project puts it when there is none.\<close>

definition statIsDir :: "world \<Rightarrow> pstate \<Rightarrow> string \<Rightarrow> bool" where
  "statIsDir w s path = (case os_Stat w s path of Inr isDir \<Rightarrow> isDir | Inl err \<Rightarrow> False)"

definition statOk :: "world \<Rightarrow> pstate \<Rightarrow> string \<Rightarrow> bool" where
  "statOk w s path = (case os_Stat w s path of Inr isDir \<Rightarrow> True | Inl err \<Rightarrow> False)"

definition findSuiteScriptsDir :: "world \<Rightarrow> (error + string) proc" where
  "findSuiteScriptsDir w s =
     (let possiblePaths = [''src/FileCabinet/SuiteScripts'', ''src/SuiteScripts'', ''SuiteScripts'']
      in case find (statIsDir w s) possiblePaths of
           Some path \<Rightarrow> (s, Return (Inr path))
         | None \<Rightarrow>
             (let basePath =
                    (if statOk w s ''src/FileCabinet'' then ''src/FileCabinet/SuiteScripts''
                     else if statOk w s ''src'' then ''src/SuiteScripts''
                     else ''SuiteScripts'')
              in bind (os_MkdirAll w basePath) (\<lambda>r.
                   case r of
                     Some err \<Rightarrow>
                       ret (Inl (Err (''failed to create SuiteScripts directory: '' @ Error err)))
                   | None \<Rightarrow> ret (Inr basePath)) s))"

text \<open>\<open>findObjectsDir\<close> locates the Objects directory in the project, and creates it
  when there is none.\<close>

definition findObjectsDir :: "world \<Rightarrow> (error + string) proc" where
  "findObjectsDir w s =
     (let possiblePaths = [''src/Objects'', ''Objects'']
      in case find (statIsDir w s) possiblePaths of
           Some path \<Rightarrow> (s, Return (Inr path))
         | None \<Rightarrow>
             (let basePath = (if statOk w s ''src'' then ''src/Objects'' else ''Objects'')
              in bind (os_MkdirAll w basePath) (\<lambda>r.
                   case r of
                     Some err \<Rightarrow>
                       ret (Inl (Err (''failed to create Objects directory: '' @ Error err)))
                   | None \<Rightarrow> ret (Inr basePath)) s))"

text \<open>\<open>FolderOption\<close> is a folder of the interactive menu.\<close>

record FolderOption =
  Path :: string
  Display :: string
  FullPath :: string

text \<open>\<open>findAllFolders\<close> finds all directories below \<open>baseDir\<close>. The third argument is
  what \<open>os.ReadDir\<close> finds at \<open>fullPath\<close>: the recursive call on an entry reads that
  entry. The loop over the entries appends to \<open>folders\<close>.\<close>

fun findAllFolders :: "string \<Rightarrow> string \<Rightarrow> fsnode \<Rightarrow> FolderOption list" where
  "findAllFolders baseDir relativePath (Unreadable err) = []"
| "findAllFolders baseDir relativePath NotDir = []"
| "findAllFolders baseDir relativePath (Directory entries) =
     (let fullPath = (if relativePath \<noteq> [] then Join [baseDir, relativePath] else baseDir)
      in foldl (\<lambda>folders entry.
           case entry of (name, child) \<Rightarrow>
             if IsDir child then
               (let entryRelativePath =
                      (if relativePath \<noteq> [] then Join [relativePath, name] else name);
                    netSuitePath = ReplaceAll entryRelativePath ''/'' ''/'';
                    depth = Count entryRelativePath ''/'';
                    indent = Repeat ''  '' depth;
                    displayName =
                      indent @ name @ (if depth > 0 then '' ('' @ netSuitePath @ '')'' else [])
                in (folders @ [\<lparr>Path = netSuitePath, Display = displayName,
                                FullPath = Join [fullPath, name]\<rparr>])
                   @ findAllFolders baseDir entryRelativePath child)
             else folders) [] entries)"

text \<open>The body of the loop of \<open>findAllFolders\<close> for one directory entry: the relative
  path of the entry, and the folder option that is appended.\<close>

definition entryRelativePath :: "string \<Rightarrow> string \<Rightarrow> string" where
  "entryRelativePath relativePath name =
     (if relativePath \<noteq> [] then Join [relativePath, name] else name)"

definition folderOption :: "string \<Rightarrow> string \<Rightarrow> string \<Rightarrow> FolderOption" where
  "folderOption baseDir relativePath name =
     (let fullPath = (if relativePath \<noteq> [] then Join [baseDir, relativePath] else baseDir);
          netSuitePath = ReplaceAll (entryRelativePath relativePath name) ''/'' ''/'';
          depth = Count (entryRelativePath relativePath name) ''/''
      in \<lparr>Path = netSuitePath,
          Display = Repeat ''  '' depth @ name
                    @ (if depth > 0 then '' ('' @ netSuitePath @ '')'' else []),
          FullPath = Join [fullPath, name]\<rparr>)"

text \<open>\<open>displayScrollableMenu\<close> shows a scrollable menu of folder options to the user.
  \<open>menuDisplay\<close> is what one round of its loop prints before it reads.\<close>

definition pageSize :: nat where
  "pageSize = 20"

definition totalPages :: "FolderOption list \<Rightarrow> nat" where
  "totalPages folders = (length folders + pageSize - 1) div pageSize"

definition menuDisplay :: "FolderOption list \<Rightarrow> nat \<Rightarrow> string list" where
  "menuDisplay folders currentPage =
     (let start = currentPage * pageSize;
          stop = (if start + pageSize > length folders then length folders else start + pageSize)
      in [''\<newline>'',
          ''Available folders under SuiteScripts:\<newline>'',
          ''  0. SuiteScripts (root)\<newline>'',
          Repeat ''-'' 60 @ ''\<newline>'']
         @ map (\<lambda>i. ''  '' @ itoa (i + 1) @ ''. '' @ Display (folders ! i) @ ''\<newline>'')
             [start..<stop]
         @ (if totalPages folders > 1 then
              [''\<newline>Page '' @ itoa (currentPage + 1) @ '' of '' @ itoa (totalPages folders)]
              @ (if currentPage > 0 then ['' (p: previous page''] else [])
              @ (if currentPage < totalPages folders - 1 then
                   (if currentPage > 0 then ['', n: next page''] else ['' (n: next page''])
                 else [])
              @ (if currentPage > 0 \<or> currentPage < totalPages folders - 1 then ['')''] else [])
            else [])
         @ [''\<newline>Select folder (0 for root, number to select'']
         @ (if totalPages folders > 1 then ['', 'n' for next page, 'p' for previous page''] else [])
         @ [''): ''])"

text \<open>The rest of a round, from the line that was read: go to another page and prompt
  again, or return the path that was selected.\<close>

datatype step = Continue nat | Selected string

definition menuStep :: "unicode \<Rightarrow> FolderOption list \<Rightarrow> nat \<Rightarrow> string \<Rightarrow> event list \<times> step" where
  "menuStep U folders currentPage input0 =
     (let input = TrimSpace U (ToLower U input0) in
      if totalPages folders > 1 \<and> input = ''n'' \<and> currentPage < totalPages folders - 1
      then ([], Continue (currentPage + 1))
      else if totalPages folders > 1 \<and> input = ''p'' \<and> currentPage > 0
      then ([], Continue (currentPage - 1))
      else (case Atoi input of
              Inl err \<Rightarrow>
                ([Print ''Invalid selection. Please enter a number'']
                 @ (if totalPages folders > 1 then [Print '' or 'n'/'p' for navigation''] else [])
                 @ [Print ''\<newline>'', Sleep 1],
                 Continue currentPage)
            | Inr selection \<Rightarrow>
                if selection = 0 then ([], Selected [])
                else if selection < 1 \<or> selection > int (length folders)
                then ([Print (''Invalid selection. Please choose between 0 and ''
                          @ itoa (length folders) @ ''\<newline>''),
                       Sleep 1],
                      Continue currentPage)
                else ([], Selected (Path (folders ! nat (selection - 1))))))"

function displayLoop ::
  "unicode \<Rightarrow> FolderOption list \<Rightarrow> string \<Rightarrow> nat \<Rightarrow> (string \<times> string) proc" where
  "displayLoop U folders scriptPathPrefix currentPage s =
     (case stdin s of
        [] \<Rightarrow>
          (s\<lparr>history := history s @ map Print (menuDisplay folders currentPage)
                @ [Print (''Error reading selection: '' @ Error EOF @ ''\<newline>'')]\<rparr>,
           Exit 1)
      | input # rest \<Rightarrow>
          (case menuStep U folders currentPage input of
             (out, Continue page) \<Rightarrow>
               displayLoop U folders scriptPathPrefix page
                 (s\<lparr>stdin := rest,
                    history := history s @ map Print (menuDisplay folders currentPage) @ out\<rparr>)
           | (out, Selected path) \<Rightarrow>
               (s\<lparr>stdin := rest,
                  history := history s @ map Print (menuDisplay folders currentPage) @ out\<rparr>,
                Return (path, scriptPathPrefix))))"
  by pat_completeness auto
termination
  by (relation "measure (\<lambda>(U, folders, scriptPathPrefix, currentPage, s). length (stdin s))") auto

definition displayScrollableMenu ::
  "unicode \<Rightarrow> FolderOption list \<Rightarrow> string \<Rightarrow> (string \<times> string) proc" where
  "displayScrollableMenu U folders scriptPathPrefix = displayLoop U folders scriptPathPrefix 0"

text \<open>\<open>selectScriptFolder\<close> lets the user select a folder for the script.\<close>

definition selectScriptFolder :: "unicode \<Rightarrow> world \<Rightarrow> string \<Rightarrow> (string \<times> string) proc" where
  "selectScriptFolder U w suiteScriptsDir s =
     (let folders = findAllFolders suiteScriptsDir [] (DirTree w (history s) suiteScriptsDir);
          scriptPathPrefix = ''SuiteScripts/''
      in if length folders = 0 then
           seq (fmt_Print (''\<newline>No folders found under SuiteScripts. ''
                  @ ''Place script in SuiteScripts root? (y/n): ''))
             (bind ReadString (\<lambda>r.
                case r of
                  Inl err \<Rightarrow> fatal [''Error reading response: '' @ Error err @ ''\<newline>''] 1
                | Inr response0 \<Rightarrow>
                    (let response = TrimSpace U (ToLower U response0) in
                     if response \<noteq> ''y'' \<and> response \<noteq> ''yes''
                     then fatal [''Cancelled. Script not created.\<newline>''] 0
                     else ret ([], scriptPathPrefix)))) s
         else displayScrollableMenu U folders scriptPathPrefix s)"

text \<open>\<open>runAdd\<close> adds a new script. Its first part loads the configuration and asks for
  what is missing: the script name, the description, and the record type of a user event
  or workflow action script.\<close>

definition apostrophe :: string where
  "apostrophe = [CHR 0x27]"

definition runAdd_inputs ::
  "unicode \<Rightarrow> world \<Rightarrow> string \<Rightarrow> string list \<Rightarrow> (ProjectConfig \<times> string \<times> string \<times> string) proc" where
  "runAdd_inputs U w scriptType args s =
     (case LoadConfig w s of
        Inl err \<Rightarrow>
          fatal [''Error: '' @ Error err @ ''\<newline>'',
                 ''Not a project folder. Please run 'netsuite-cli create'\<newline>''] 1 s
      | Inr config \<Rightarrow>
          (let scriptName0 = (if length args > 0 then hd args else []);
               projectName = ProjectName config;
               defaultScriptName = toSnakeCase U projectName
           in bind (if scriptName0 = [] then
                      seq (fmt_Print ''Enter script name'')
                     (seq (if defaultScriptName \<noteq> []
                           then fmt_Print ('' (default: '' @ defaultScriptName @ '')'')
                           else ret ())
                     (seq (fmt_Print '': '')
                     (bind ReadString (\<lambda>r.
                        case r of
                          Inl err \<Rightarrow>
                            fatal [''Error reading script name: '' @ Error err @ ''\<newline>''] 1
                        | Inr line \<Rightarrow>
                            (let scriptName = TrimSpace U line in
                             ret (if scriptName = [] then defaultScriptName else scriptName))))))
                    else ret scriptName0) (\<lambda>scriptName.
              if scriptName = [] then fatal [''Error: Script name is required\<newline>''] 1
              else
                (let defaultDescription = scriptName @ '' description'' in
                 seq (fmt_Print ''Enter script description'')
                (seq (if defaultDescription \<noteq> []
                      then fmt_Print ('' (default: '' @ defaultDescription @ '')'')
                      else ret ())
                (seq (fmt_Print '': '')
                (bind ReadString (\<lambda>r.
                   case r of
                     Inl err \<Rightarrow>
                       fatal [''Error reading description: '' @ Error err @ ''\<newline>''] 1
                   | Inr line \<Rightarrow>
                       (let description0 = TrimSpace U line;
                            description =
                              (if description0 = [] then defaultDescription else description0)
                        in bind (if scriptType = ''userevent'' \<or> scriptType = ''workflowaction''
                                 then
                                   seq (fmt_Print
                                     ''Enter record type (e.g., CUSTOMER, SALESORDER, INVOICE): '')
                                  (bind ReadString (\<lambda>r.
                                     case r of
                                       Inl err \<Rightarrow>
                                         fatal [''Error reading record type: '' @ Error err
                                                @ ''\<newline>''] 1
                                     | Inr recordTypeInput \<Rightarrow>
                                         (let recordType = TrimSpace U recordTypeInput in
                                          if recordType = []
                                          then fatal [''Error: Record type is required for ''
                                                      @ scriptType @ '' scripts\<newline>''] 1
                                          else ret recordType)))
                                 else ret []) (\<lambda>recordType.
                           ret (config, scriptName, description, recordType))))))))) s))"

text \<open>The identifiers derived from the script name.\<close>

definition scriptId :: "unicode \<Rightarrow> string \<Rightarrow> string" where
  "scriptId U scriptName = ReplaceAll (ToLower U scriptName) '' '' ''_''"

definition deploymentId :: "unicode \<Rightarrow> string \<Rightarrow> string" where
  "deploymentId U scriptName = ''customdeploy_'' @ scriptId U scriptName"

text \<open>The last part of \<open>runAdd\<close>, the XML file: for a script type with a non-empty
  XML template, other than \<open>common\<close>.\<close>

definition runAdd_xml ::
  "world \<Rightarrow> string \<Rightarrow> string \<Rightarrow> string \<Rightarrow> string \<Rightarrow> TemplateData \<Rightarrow> unit proc" where
  "runAdd_xml w scriptType projectName prefixedFileName xml data =
     (if xml \<noteq> [] \<and> scriptType \<noteq> ''common'' then
        bind (findObjectsDir w) (\<lambda>r.
          case r of
            Inl err \<Rightarrow> fatal [''Error: '' @ Error err @ ''\<newline>''] 1
          | Inr objectsDir \<Rightarrow>
              (let recordType = getRecordType scriptType in
               if recordType = [] then
                 fmt_Print (''Warning: No record type found for script type ''
                   @ apostrophe @ scriptType @ apostrophe @ ''. XML file not created.\<newline>'')
               else
                 (let xmlTargetDir = Join [objectsDir, projectName, recordType]
                  in bind (os_MkdirAll w xmlTargetDir) (\<lambda>r.
                       case r of
                         Some err \<Rightarrow>
                           fatal [''Error creating XML directory '' @ xmlTargetDir @ '': ''
                                  @ Error err @ ''\<newline>''] 1
                       | None \<Rightarrow>
                           (let xmlFileName = prefixedFileName @ ''.xml'';
                                xmlPath = Join [xmlTargetDir, xmlFileName]
                            in seq (renderAndWrite w xmlPath xml data)
                                   (fmt_Print (''Created '' @ xmlPath @ ''\<newline>'')))))))
      else ret ())"

text \<open>The template data as \<open>runAdd\<close> first builds it, with the date of the day, and
  the script path it gets once the folder is selected.\<close>

definition runAdd_data ::
  "unicode \<Rightarrow> string \<Rightarrow> ProjectConfig \<Rightarrow> string \<Rightarrow> string \<Rightarrow> string \<Rightarrow> string \<Rightarrow> TemplateData" where
  "runAdd_data U date config scriptName description recordType tsFileNameWithType =
     \<lparr>dataProject = ProjectName config,
      dataProjectName = ProjectName config,
      dataDescription = description,
      dataDate = date,
      dataCompanyName = CompanyName config,
      dataUserName = UserName config,
      dataUserEmail = UserEmail config,
      dataScriptName = scriptName,
      dataScriptId = ''customscript_'' @ scriptId U scriptName,
      dataScriptPath =
        ''SuiteScripts/'' @ ProjectName config @ ''/'' @ tsFileNameWithType @ ''.ts'',
      dataDeploymentId = deploymentId U scriptName,
      dataRecordType = recordType\<rparr>"

definition runAdd_scriptPath :: "string \<Rightarrow> string \<Rightarrow> string \<Rightarrow> string" where
  "runAdd_scriptPath scriptPathPrefix selectedFolder tsFileNameWithType =
     (if selectedFolder \<noteq> []
      then scriptPathPrefix @ selectedFolder @ ''/'' @ tsFileNameWithType @ ''.ts''
      else scriptPathPrefix @ tsFileNameWithType @ ''.ts'')"

text \<open>The second part of \<open>runAdd\<close>: the identifiers, the names of the files and the
  template data; the templates, the SuiteScripts directory and the folder the user
  selects; then the TypeScript file, and the XML file.\<close>

definition runAdd_generate ::
  "unicode \<Rightarrow> world \<Rightarrow> string \<Rightarrow> ProjectConfig \<times> string \<times> string \<times> string \<Rightarrow> unit proc" where
  "runAdd_generate U w scriptType inputs s0 =
     (case inputs of (config, scriptName, description, recordType) \<Rightarrow>
      (let projectName = ProjectName config;
           companyName = CompanyName config;
           companyPrefix = GetCompanyPrefix U companyName;
           prefixedFileName = companyPrefix @ ''_'' @ scriptName;
           tsFileNameWithType = prefixedFileName @ ''_'' @ scriptType;
           data0 = runAdd_data U (Today w (history s0)) config scriptName description recordType
                     tsFileNameWithType
       in bind (GetTemplates w scriptType) (\<lambda>templates.
          bind (findSuiteScriptsDir w) (\<lambda>r.
            case r of
              Inl err \<Rightarrow> fatal [''Error: '' @ Error err @ ''\<newline>''] 1
            | Inr suiteScriptsDir \<Rightarrow>
          bind (selectScriptFolder U w suiteScriptsDir) (\<lambda>selected.
            case selected of (selectedFolder, scriptPathPrefix) \<Rightarrow>
            (let osPath = ReplaceAll selectedFolder ''/'' ''/'';
                 targetDir = Join [suiteScriptsDir, osPath]
             in bind (os_MkdirAll w targetDir) (\<lambda>r.
                  case r of
                    Some err \<Rightarrow>
                      fatal [''Error creating directory '' @ targetDir @ '': '' @ Error err
                             @ ''\<newline>''] 1
                  | None \<Rightarrow>
                (let data = data0\<lparr>dataScriptPath :=
                              runAdd_scriptPath scriptPathPrefix selectedFolder
                                tsFileNameWithType\<rparr>;
                     tsFileName = tsFileNameWithType @ ''.ts'';
                     tsPath = Join [targetDir, tsFileName]
                 in seq (renderAndWrite w tsPath (TypeScript templates) data)
                   (seq (fmt_Print (''Created '' @ tsPath @ ''\<newline>''))
                        (runAdd_xml w scriptType projectName prefixedFileName (XML templates)
                           data)))))))) s0))"

definition runAdd :: "unicode \<Rightarrow> world \<Rightarrow> string \<Rightarrow> string list \<Rightarrow> unit proc" where
  "runAdd U w scriptType args =
     bind (runAdd_inputs U w scriptType args) (runAdd_generate U w scriptType)"

section \<open>Creating a project (package cmd, the create command)\<close>

text \<open>The flags of the command: \<open>--name\<close>, \<open>--skip-setup\<close> and \<open>--output\<close>.\<close>

record flags =
  projectNameFlag :: string
  skipSetupFlag :: bool
  outputDirFlag :: string

text \<open>\<open>defer f()\<close> followed by the rest of the function body: the deferred call runs
  when the body returns, and does not run when the body ends the process with
  \<open>os.Exit\<close>. Its result is dropped.\<close>

definition withDefer :: "'b proc \<Rightarrow> 'a proc \<Rightarrow> 'a proc" where
  "withDefer deferred body s =
     (case body s of
        (s', Exit code) \<Rightarrow> (s', Exit code)
      | (s', Return a) \<Rightarrow> (fst (deferred s'), Return a))"

text \<open>\<open>strings.ContainsAny\<close> for a set of ASCII characters.\<close>

definition ContainsAny :: "string \<Rightarrow> string \<Rightarrow> bool" where
  "ContainsAny s chars = list_ex (\<lambda>c. c \<in> set chars) s"

text \<open>\<open>getSuiteCloudCommand\<close> checks for the availability of the suitecloud CLI
  command.\<close>

definition getSuiteCloudCommand :: "world \<Rightarrow> pstate \<Rightarrow> string" where
  "getSuiteCloudCommand w s =
     (if LookPathResult w (history s) ''suitecloud'' = None then ''suitecloud''
      else if LookPathResult w (history s) ''suitecloud.cmd'' = None then ''suitecloud.cmd''
      else [])"

text \<open>\<open>createFileFromTemplate\<close> creates a file by executing a template with the
  data.\<close>

definition createFileFromTemplate ::
  "world \<Rightarrow> string \<Rightarrow> string \<Rightarrow> (string \<times> string) list \<Rightarrow> unit proc" where
  "createFileFromTemplate w path templatePath data =
     (case initTemplateFS w templatePath of
        Inl err \<Rightarrow>
          fatal [''Error reading template '' @ templatePath @ '': '' @ Error err @ ''\<newline>''] 1
      | Inr tmplContent \<Rightarrow>
          (case ParseError w tmplContent of
             Some err \<Rightarrow>
               fatal [''Error parsing template '' @ templatePath @ '': '' @ Error err
                      @ ''\<newline>''] 1
           | None \<Rightarrow>
               (case ExecuteMapResult w tmplContent data of
                  Inl err \<Rightarrow>
                    fatal [''Error executing template '' @ templatePath @ '': '' @ Error err
                           @ ''\<newline>''] 1
                | Inr buf \<Rightarrow>
                    bind (os_WriteFile w path buf) (\<lambda>r.
                      case r of
                        Some err \<Rightarrow>
                          fatal [''Error creating '' @ path @ '': '' @ Error err @ ''\<newline>''] 1
                      | None \<Rightarrow> ret ()))))"

text \<open>The three prompts of \<open>runInit\<close> that have a default (company name, user name, user
  email) are the same code with other words: \<open>what\<close> is the word in the prompt and
  \<open>What\<close> the one that starts the error message.\<close>

definition promptWithDefault :: "unicode \<Rightarrow> string \<Rightarrow> string \<Rightarrow> string \<Rightarrow> string proc" where
  "promptWithDefault U what What defaultValue =
     seq (fmt_Print (''Enter '' @ what))
    (seq (if defaultValue \<noteq> [] then fmt_Print ('' (default: '' @ defaultValue @ '')'') else ret ())
    (seq (fmt_Print '': '')
    (bind ReadString (\<lambda>r.
       case r of
         Inl err \<Rightarrow> fatal [''Error reading '' @ what @ '': '' @ Error err @ ''\<newline>''] 1
       | Inr line \<Rightarrow>
           (let answer = TrimSpace U line in
            if answer = [] then
              (if defaultValue \<noteq> [] then ret defaultValue
               else fatal [''Error: '' @ What @ '' cannot be empty.\<newline>''] 1)
            else ret answer)))))"

text \<open>\<open>runInit\<close> executes the project initialization. Its first part checks for the
  suitecloud command and asks for the names.\<close>

definition runInit_inputs ::
  "unicode \<Rightarrow> world \<Rightarrow> flags \<Rightarrow> (string \<times> string \<times> string \<times> string \<times> string) proc" where
  "runInit_inputs U w fl s =
     (let suiteCloudCmd = getSuiteCloudCommand w s in
      if suiteCloudCmd = [] then
        fatal [''Error: suitecloud CLI is not available in the command line.\<newline>'',
               ''Please install it using: npm install -g @oracle/suitecloud-cli\<newline>''] 1 s
      else
        bind (case LoadUserConfig w s of
                Inl err \<Rightarrow>
                  seq (fmt_Print (''Warning: Failed to load user configuration: '' @ Error err
                         @ ''\<newline>''))
                      (ret None)
              | Inr userConfig \<Rightarrow> ret userConfig) (\<lambda>userConfig.
        bind (if TrimSpace U (projectNameFlag fl) = [] then
                seq (fmt_Print ''Enter project name: '')
                    (bind ReadString (\<lambda>r.
                       case r of
                         Inl err \<Rightarrow>
                           fatal [''Error reading project name: '' @ Error err @ ''\<newline>''] 1
                       | Inr line \<Rightarrow> ret (TrimSpace U line)))
              else ret (TrimSpace U (projectNameFlag fl))) (\<lambda>projectName.
        if projectName = [] then
          fatal [''Error: Project name cannot be empty.\<newline>'',
                 ''Use --name or -n flag to specify project name, or provide it interactively.\<newline>'']
            1
        else
          (let defaultCompanyName =
                 (case userConfig of
                    Some uc \<Rightarrow> if userCompanyName uc \<noteq> [] then userCompanyName uc else []
                  | None \<Rightarrow> [])
           in bind (promptWithDefault U ''company name'' ''Company name'' defaultCompanyName)
                (\<lambda>companyName.
              bind (\<lambda>s1.
                      (case userConfig of
                         Some uc \<Rightarrow>
                           if userUserName uc \<noteq> [] then ret (userUserName uc) s1
                           else ret (case CurrentUser w (history s1) of
                                       Inl err \<Rightarrow> []
                                     | Inr username \<Rightarrow>
                                         (let parts = splitOn (CHR 0x5C) username in
                                          if length parts > 1 then parts ! 1 else username)) s1
                       | None \<Rightarrow>
                           ret (case CurrentUser w (history s1) of
                                  Inl err \<Rightarrow> []
                                | Inr username \<Rightarrow>
                                    (let parts = splitOn (CHR 0x5C) username in
                                     if length parts > 1 then parts ! 1 else username)) s1))
                (\<lambda>defaultUserName.
              bind (promptWithDefault U ''user name'' ''User name'' defaultUserName) (\<lambda>userName.
              (let defaultUserEmail =
                     (case userConfig of
                        Some uc \<Rightarrow> if userUserEmail uc \<noteq> [] then userUserEmail uc else []
                      | None \<Rightarrow> [])
               in bind (promptWithDefault U ''user email'' ''User email'' defaultUserEmail)
                    (\<lambda>userEmail.
                  if ContainsAny projectName
                       [CHR ''<'', CHR ''>'', CHR '':'', CHR 0x22, CHR ''/'', CHR 0x5C, CHR ''|'',
                        CHR ''?'', CHR ''*'']
                  then fatal [''Error: Project name contains invalid characters.\<newline>''] 1
                  else ret (suiteCloudCmd, projectName, companyName, userName, userEmail)))))))))
          s)"

text \<open>The second part of \<open>runInit\<close>: the directories, the suitecloud command run from the
  output directory, the configuration files, the account setup and the two preference
  files.\<close>

definition projectType :: string where
  "projectType = ''ACCOUNTCUSTOMIZATION''"

definition runInit_create ::
  "world \<Rightarrow> flags \<Rightarrow> string \<times> string \<times> string \<times> string \<times> string \<Rightarrow> unit proc" where
  "runInit_create w fl inputs s0 =
     (case inputs of (suiteCloudCmd, projectName, companyName, userName, userEmail) \<Rightarrow>
      (case os_Getwd w s0 of
        Inl err \<Rightarrow> fatal [''Error getting current directory: '' @ Error err @ ''\<newline>''] 1 s0
      | Inr wd \<Rightarrow>
      (let outputDir =
             (if outputDirFlag fl = ''.'' then wd
              else if \<not> IsAbs (outputDirFlag fl) then Join [wd, outputDirFlag fl]
              else outputDirFlag fl);
           projectDir = Join [outputDir, projectName]
       in if statOk w s0 projectDir then
            fatal [''Error: Project directory '' @ apostrophe @ projectDir @ apostrophe
                   @ '' already exists.\<newline>''] 1 s0
          else
            seq (fmt_Print (''Creating project '' @ apostrophe @ projectName @ apostrophe
                   @ '' (type: '' @ projectType @ '')...\<newline>''))
           (\<lambda>s1.
            case os_Getwd w s1 of
              Inl err \<Rightarrow>
                fatal [''Error getting current directory: '' @ Error err @ ''\<newline>''] 1 s1
            | Inr originalDir \<Rightarrow>
            bind (os_Chdir w outputDir) (\<lambda>r.
              case r of
                Some err \<Rightarrow>
                  fatal [''Error changing to output directory: '' @ Error err @ ''\<newline>''] 1
              | None \<Rightarrow>
            withDefer (os_Chdir w originalDir)
             (bind (exec_Run w suiteCloudCmd
                      [''project:create'', ''--type'', projectType, ''--projectname'', projectName]
                      [])
                (\<lambda>r.
                case r of
                  Some err \<Rightarrow> fatal [''Error creating project: '' @ Error err @ ''\<newline>''] 1
                | None \<Rightarrow>
              (\<lambda>s2.
               if (case os_Stat w s2 projectDir of Inl err \<Rightarrow> IsNotExist err | Inr info \<Rightarrow> False)
               then fatal [''Error: Project directory '' @ apostrophe @ projectDir @ apostrophe
                           @ '' was not created.\<newline>''] 1 s2
               else
               (let suiteScriptsDir = Join [projectDir, ''src'', ''FileCabinet'', ''SuiteScripts''];
                    projectFolderPath = Join [suiteScriptsDir, projectName];
                    objectsDir = Join [projectDir, ''src'', ''Objects''];
                    objectsProjectFolderPath = Join [objectsDir, projectName];
                    templateData = [(''ProjectName'', projectName)]
                in bind (os_MkdirAll w projectFolderPath) (\<lambda>r.
                     seq (case r of
                            Some err \<Rightarrow>
                              fmt_Print (''Warning: Failed to create project folder in SuiteScripts: ''
                                @ Error err @ ''\<newline>'')
                          | None \<Rightarrow>
                              fmt_Print (''Created project folder: '' @ projectFolderPath
                                @ ''\<newline>''))
                    (bind (os_MkdirAll w objectsProjectFolderPath) (\<lambda>r.
                     seq (case r of
                            Some err \<Rightarrow>
                              fmt_Print (''Warning: Failed to create project folder in Objects: ''
                                @ Error err @ ''\<newline>'')
                          | None \<Rightarrow>
                              fmt_Print (''Created project folder: '' @ objectsProjectFolderPath
                                @ ''\<newline>''))
                    (seq (fmt_Print ''Generating configuration files...\<newline>'')
                    (seq (createFileFromTemplate w (Join [projectDir, ''package.json''])
                            ''templates/package.json.tmpl'' templateData)
                    (seq (createFileFromTemplate w (Join [projectDir, ''suitecloud.config.js''])
                            ''templates/suitecloud.config.js.tmpl'' templateData)
                    (seq (createFileFromTemplate w (Join [projectDir, ''tsconfig.json''])
                            ''templates/tsconfig.json.tmpl'' templateData)
                    (seq (createFileFromTemplate w (Join [projectDir, ''.gitignore''])
                            ''templates/.gitignore.tmpl'' templateData)
                    (seq (if \<not> skipSetupFlag fl then
                            seq (fmt_Print ''Setting up account...\<newline>'')
                               (bind (exec_Run w suiteCloudCmd [''account:setup''] projectDir) (\<lambda>r.
                                  case r of
                                    Some err \<Rightarrow>
                                      seq (fmt_Print
                                             (''Warning: Account setup encountered an error: ''
                                              @ Error err @ ''\<newline>''))
                                          (fmt_Print
                                             (''You can run 'suitecloud account:setup' manually ''
                                              @ ''in the project directory.\<newline>''))
                                  | None \<Rightarrow>
                                      fmt_Print ''Account setup completed successfully.\<newline>''))
                          else
                            fmt_Print ''Skipping account setup (--skip-setup flag used).\<newline>'')
                    (bind (SaveConfig w projectDir
                             \<lparr>ProjectName = projectName, CompanyName = companyName,
                              UserName = userName, UserEmail = userEmail\<rparr>) (\<lambda>r.
                     seq (case r of
                            Some err \<Rightarrow>
                              fmt_Print (''Warning: Failed to save configuration: '' @ Error err
                                @ ''\<newline>'')
                          | None \<Rightarrow>
                              fmt_Print ''Configuration saved to .netsuite-cli file\<newline>'')
                    (bind (SaveUserConfig w
                             \<lparr>userCompanyName = companyName, userUserName = userName,
                              userUserEmail = userEmail\<rparr>) (\<lambda>r.
                     seq (case r of
                            Some err \<Rightarrow>
                              fmt_Print (''Warning: Failed to save user configuration: ''
                                @ Error err @ ''\<newline>'')
                          | None \<Rightarrow>
                              fmt_Print ''User configuration saved to .netsuite-cli file\<newline>'')
                    (seq (fmt_Print ([CHR 0x0A, CHR 0xE2, CHR 0x9C, CHR 0x93]
                            @ '' Initialization complete!\<newline>''))
                    (seq (fmt_Print (''Project created at: '' @ projectDir @ ''\<newline>''))
                         (fmt_Print (''To get started, run: cd '' @ projectDir
                            @ ''\<newline>'')))))))))))))))))) s2)))) s1) s0)))"

definition runInit :: "unicode \<Rightarrow> world \<Rightarrow> flags \<Rightarrow> unit proc" where
  "runInit U w fl = bind (runInit_inputs U w fl) (runInit_create w fl)"

section \<open>Observing a run, and an example environment\<close>



definition spaceToUnderscore :: "char \<Rightarrow> char" where
  "spaceToUnderscore c = (if c = CHR '' '' then CHR ''_'' else c)"

text \<open>The example of the specification: the project \<open>acme-proj\<close> of the company \<open>Acme\<close>,
  in the directory \<open>/work\<close>, with a SuiteScripts directory whose tree is given. Every
  template is the text \<open>T\<close> and renders as itself; every system call succeeds.\<close>

definition acme :: ProjectConfig where
  "acme = \<lparr>ProjectName = ''acme-proj'', CompanyName = ''Acme'', UserName = ''jdoe'',
            UserEmail = ''jdoe@x.com''\<rparr>"

definition demoWorld :: "fsnode \<Rightarrow> world" where
  "demoWorld tree =
     \<lparr>GetwdError = (\<lambda>h. None),
      UserHomeDirResult = (\<lambda>h. Inr ''/home/jdoe''),
      StatResult = (\<lambda>h path. if path = ''SuiteScripts'' then Inr True
                     else if path = ''/work/.netsuite-cli'' then Inr False
                     else Inl (ErrNotExist ''no such file or directory'')),
      ReadFileResult = (\<lambda>h path. Inr ''{}''),
      DirTree = (\<lambda>h path. tree),
      MkdirAllResult = (\<lambda>h path. None),
      WriteFileResult = (\<lambda>h path content. None),
      ChdirResult = (\<lambda>h path. None),
      RunResult = (\<lambda>h name args dir. None),
      LookPathResult = (\<lambda>h name. None),
      CurrentUser = (\<lambda>h. Inr ''jdoe''),
      Today = (\<lambda>h. ''2026-01-01''),
      templateFS = (\<lambda>path. Inr ''T''),
      initTemplateFS = (\<lambda>path. Inr ''T''),
      UnmarshalProjectConfig = (\<lambda>d. Inr acme),
      UnmarshalUserConfig = (\<lambda>d. Inl (Err ''unexpected end of JSON input'')),
      MarshalProjectConfig = (\<lambda>c. Inr ''{}''),
      MarshalUserConfig = (\<lambda>c. Inr ''{}''),
      ParseError = (\<lambda>t. None),
      ExecuteResult = (\<lambda>t d. Inr t),
      ExecuteMapResult = (\<lambda>t d. Inr t)\<rparr>"

text \<open>The same with no file anywhere.\<close>

definition nowhere :: world where
  "nowhere = (demoWorld (Directory []))
      \<lparr>StatResult := (\<lambda>h path. Inl (ErrNotExist ''no such file or directory''))\<rparr>"

definition start :: "string list \<Rightarrow> pstate" where
  "start lines = \<lparr>stdin = lines, cwd = ''/work'', history = []\<rparr>"

text \<open>A catalog of 21 folders, which takes two pages.\<close>

definition manyFolders :: "FolderOption list" where
  "manyFolders = map (\<lambda>i. \<lparr>Path = ''f'' @ itoa i, Display = ''f'' @ itoa i,
                             FullPath = ''SuiteScripts/f'' @ itoa i\<rparr>) [1..<22]"



definition afterRecordType :: "string list \<Rightarrow> pstate" where
  "afterRecordType lines =
     \<lparr>stdin = lines, cwd = ''/work'',
      history = [Print ''Enter script description'',
                 Print '' (default: My Report description)'', Print '': '',
                 Print ''Enter record type (e.g., CUSTOMER, SALESORDER, INVOICE): '']\<rparr>"

definition usereventRun :: "string \<Rightarrow> pstate \<times> unit outcome" where
  "usereventRun recordType = runAdd_generate asciiOnly (demoWorld (Directory [])) ''userevent''
     (acme, ''My Report'', ''My Report description'', recordType) (afterRecordType [''y\<newline>''])"

text \<open>A project \<open>demo\<close> to be created under \<open>out\<close>, in an environment with no file
  anywhere and a suitecloud command that fails; and the state after the three names are
  read.\<close>

definition failingCreate :: world where
  "failingCreate = nowhere\<lparr>RunResult := (\<lambda>h name args dir. Some (Err ''exit status 1''))\<rparr>"

definition demoFlags :: flags where
  "demoFlags = \<lparr>projectNameFlag = ''demo'', skipSetupFlag = True, outputDirFlag = ''out''\<rparr>"

definition afterNames :: pstate where
  "afterNames =
     \<lparr>stdin = [], cwd = ''/work'',
      history = [Print ''Enter company name'', Print '': '',
                 Print ''Enter user name'', Print '' (default: jdoe)'', Print '': '',
                 Print ''Enter user email'', Print '': '']\<rparr>"

text \<open>The pre-order traversal of the specification. A directory below the root is named
  by the names on the way to it from the root. \<open>preorder\<close> lists the subdirectories of a
  listing in its order, each one before what is below it; a directory that cannot be
  read is treated as empty. \<open>relativePathOf\<close> is the relative path that
  \<open>findAllFolders\<close> has built when it reaches a directory, and \<open>folderOptionAt\<close> the
  folder option it appends for it.\<close>

fun preorder :: "string list \<Rightarrow> fsnode \<Rightarrow> string list list" where
  "preorder names (Directory entries) =
     concat (map (\<lambda>entry. case entry of (name, child) \<Rightarrow>
                    if IsDir child then (names @ [name]) # preorder (names @ [name]) child
                    else []) entries)"
| "preorder names (Unreadable err) = []"
| "preorder names NotDir = []"

definition relativePathOf :: "string list \<Rightarrow> string" where
  "relativePathOf names = foldl entryRelativePath [] names"

definition folderOptionAt :: "string \<Rightarrow> string list \<Rightarrow> FolderOption" where
  "folderOptionAt baseDir names = folderOption baseDir (relativePathOf (butlast names)) (last names)"

text \<open>In every listing the names are distinct.\<close>

fun distinctNames :: "fsnode \<Rightarrow> bool" where
  "distinctNames (Directory entries) =
     (distinct (map fst entries)
      \<and> list_all (\<lambda>entry. case entry of (name, child) \<Rightarrow> distinctNames child) entries)"
| "distinctNames (Unreadable err) = True"
| "distinctNames NotDir = True"

text \<open>A tree with the directories \<open>a\<close>, \<open>a/b\<close>, \<open>c\<close>, which cannot be read, and \<open>d\<close>,
  and the file \<open>a/f.ts\<close>.\<close>

definition sampleTree :: fsnode where
  "sampleTree = Directory
     [(''a'', Directory [(''b'', Directory []), (''f.ts'', NotDir)]),
      (''c'', Unreadable (Err ''permission denied'')),
      (''d'', Directory [])]"

section \<open>Properties\<close>

subsection \<open>Running procedures\<close>

lemma bind_Return: "m s = (s', Return a) \<Longrightarrow> bind m k s = k a s'"
  by (simp add: bind_def)


lemma bind_ret: "bind (ret a) k s = k a s"
  by (simp add: bind_def ret_def)

lemma seq_ret: "seq (ret ()) k s = k s"
  by (simp add: seq_def bind_def ret_def)

lemma seq_Print: "seq (fmt_Print t) k s = k (s\<lparr>history := history s @ [Print t]\<rparr>)"
  by (simp add: seq_def bind_def fmt_Print_def emit_def)

lemma fmt_Print_run: "fmt_Print t s = (s\<lparr>history := history s @ [Print t]\<rparr>, Return ())"
  by (simp add: fmt_Print_def emit_def)

lemma fatal_run: "fatal msgs code s = (s\<lparr>history := history s @ map Print msgs\<rparr>, Exit code)"
  by (induction msgs arbitrary: s) (simp_all add: os_Exit_def seq_Print)

declare fatal.simps [simp del]

lemma bind_ReadString:
  "bind ReadString k s =
     (case stdin s of [] \<Rightarrow> k (Inl EOF) s | line # rest \<Rightarrow> k (Inr line) (s\<lparr>stdin := rest\<rparr>))"
  by (simp add: bind_def ReadString_def split: list.splits)

lemma bind_MkdirAll:
  "bind (os_MkdirAll w path) k s =
     k (MkdirAllResult w (history s) path) (s\<lparr>history := history s @ [MkdirAll path]\<rparr>)"
  by (simp add: bind_def os_MkdirAll_def)

lemma bind_WriteFile:
  "bind (os_WriteFile w path content) k s =
     k (WriteFileResult w (history s) path content)
       (s\<lparr>history := history s @ [WriteFile path content]\<rparr>)"
  by (simp add: bind_def os_WriteFile_def)

lemma seq_run:
  "seq m k s = (case m s of (s', Exit code) \<Rightarrow> (s', Exit code) | (s', Return u) \<Rightarrow> k s')"
  by (simp add: seq_def bind_def)

lemmas run_simps = bind_ret seq_ret seq_Print fmt_Print_run fatal_run bind_ReadString
  bind_MkdirAll bind_WriteFile

text \<open>What a normal return of a composed procedure says about its parts.\<close>

lemma bind_sum_fatal_Return:
  assumes "bind m (\<lambda>r. case r of Inl err \<Rightarrow> fatal (f err) code | Inr x \<Rightarrow> k x) s
             = (s', Return a)"
  shows "\<exists>s1 x. m s = (s1, Return (Inr x)) \<and> k x s1 = (s', Return a)"
  using assms
  by (auto simp add: bind_def fatal_run split: prod.splits outcome.splits sum.splits)

lemma bind_option_fatal_Return:
  assumes "bind m (\<lambda>r. case r of Some err \<Rightarrow> fatal (f err) code | None \<Rightarrow> k) s
             = (s', Return a)"
  shows "\<exists>s1. m s = (s1, Return None) \<and> k s1 = (s', Return a)"
  using assms
  by (auto simp add: bind_def fatal_run split: prod.splits outcome.splits option.splits)

lemma seq_Return:
  assumes "seq m k s = (s', Return a)"
  shows "\<exists>s1. m s = (s1, Return ()) \<and> k s1 = (s', Return a)"
  using assms by (auto simp add: seq_run split: prod.splits outcome.splits)

lemma Print_Return:
  assumes "fmt_Print t s = (s', Return a)"
  shows "history s' = history s @ [Print t]"
  using assms by (auto simp add: fmt_Print_run)

lemma MkdirAll_Return:
  assumes "os_MkdirAll w path s = (s', Return r)"
  shows "history s' = history s @ [MkdirAll path]"
  using assms by (auto simp add: os_MkdirAll_def)

lemma append_three: "(xs @ [a]) @ [b] = xs @ [a, b]" "(xs @ [a, b]) @ [c] = xs @ [a, b, c]"
  by simp_all
















subsection \<open>The company prefix\<close>




subsection \<open>Loading the preferences\<close>

text \<open>
  C9: when the preference file in the home directory is absent, \<open>LoadUserConfig\<close> returns
  no configuration and no error; when the preference file in the current directory is
  absent, \<open>LoadConfig\<close> fails with the not-found error.
\<close>

theorem C9_absent_preferences:
  "(UserHomeDirResult w (history s) = Inr homeDir \<and>
    StatResult w (history s) (Join [homeDir, ''.netsuite-cli'']) = Inl err \<and> IsNotExist err
      \<longrightarrow> LoadUserConfig w s = Inr None)
   \<and> (os_Getwd w s = Inr wd \<and>
    StatResult w (history s) (Join [wd, ''.netsuite-cli'']) = Inl err' \<and> IsNotExist err'
      \<longrightarrow> LoadConfig w s
            = Inl (Err ''.netsuite-cli file not found. Please run 'create' first''))"
  by (simp add: LoadUserConfig_def LoadConfig_def os_Stat_def Let_def)

text \<open>C9 where no file exists: the home directory is \<open>/home/jdoe\<close>, the current
  directory \<open>/work\<close>.\<close>

theorem C9_absent_preferences_witness:
  "LoadUserConfig nowhere (start []) = Inr None
   \<and> LoadConfig nowhere (start [])
       = Inl (Err ''.netsuite-cli file not found. Please run 'create' first'')"
proof -
  have h: "UserHomeDirResult nowhere (history (start [])) = Inr ''/home/jdoe''"
    and g: "os_Getwd nowhere (start []) = Inr ''/work''"
    and a: "StatResult nowhere (history (start [])) (Join [''/home/jdoe'', ''.netsuite-cli''])
              = Inl (ErrNotExist ''no such file or directory'')"
    and b: "StatResult nowhere (history (start [])) (Join [''/work'', ''.netsuite-cli''])
              = Inl (ErrNotExist ''no such file or directory'')"
    and n: "IsNotExist (ErrNotExist ''no such file or directory'')"
    by (simp_all add: nowhere_def demoWorld_def start_def os_Getwd_def)
  from C9_absent_preferences[of nowhere "start []" "''/home/jdoe''"
      "ErrNotExist ''no such file or directory''" "''/work''"
      "ErrNotExist ''no such file or directory''"] h g a b n
  show ?thesis by blast
qed

subsection \<open>The identifiers of a script\<close>

lemma ReplaceAll_space: "ReplaceAll s '' '' ''_'' = map spaceToUnderscore s"
  by (induction s) (auto simp add: spaceToUnderscore_def)

lemma ReplaceAll_same: "ReplaceAll s [c] [c] = s"
  by (induction s) auto

lemma lowerByte_ascii: "of_char c < RuneSelf \<Longrightarrow> of_char (lowerByte c) < RuneSelf"
  by (auto simp add: lowerByte_def isUpperByte_def RuneSelf_def)

lemma lowerByte_idem: "lowerByte (lowerByte c) = lowerByte c"
  by (auto simp add: lowerByte_def isUpperByte_def)

lemma lowerByte_spaceToUnderscore:
  "lowerByte (spaceToUnderscore c) = spaceToUnderscore (lowerByte c)"
  by (auto simp add: lowerByte_def isUpperByte_def spaceToUnderscore_def char_of_eq_iff
      take_bit_eq_mod)

lemma spaceToUnderscore_idem: "spaceToUnderscore (spaceToUnderscore c) = spaceToUnderscore c"
  by (simp add: spaceToUnderscore_def)

lemma isASCII_lower: "isASCII s \<Longrightarrow> isASCII (map lowerByte s)"
  by (induction s) (auto simp add: isASCII_def lowerByte_ascii)

lemma isASCII_spaceToUnderscore: "isASCII (map spaceToUnderscore s) = isASCII s"
  by (induction s) (auto simp add: isASCII_def spaceToUnderscore_def RuneSelf_def)

lemma ToLower_ascii_stable:
  assumes "isASCII m" and "ToLower U m = m"
  shows "ToLower U (map spaceToUnderscore m) = map spaceToUnderscore m"
proof -
  from assms have m: "map lowerByte m = m" by (simp add: ToLower_def)
  have "ToLower U (map spaceToUnderscore m) = map lowerByte (map spaceToUnderscore m)"
    using assms(1) by (simp add: ToLower_def isASCII_spaceToUnderscore)
  also have "\<dots> = map spaceToUnderscore (map lowerByte m)"
    by (simp add: lowerByte_spaceToUnderscore)
  finally show ?thesis by (simp add: m)
qed

text \<open>The tables that know nothing beyond ASCII leave a string with a byte above
  \<open>0x7F\<close> as it is.\<close>

lemma asciiOnly_lowering:
  "\<not> isASCII t \<Longrightarrow> ToLower asciiOnly (MapToLower asciiOnly t) = MapToLower asciiOnly t"
  "\<not> isASCII t \<Longrightarrow>
     ToLower asciiOnly (map spaceToUnderscore t) = map spaceToUnderscore (MapToLower asciiOnly t)"
  by (simp_all add: ToLower_def asciiOnly_def isASCII_spaceToUnderscore)

text \<open>
  C8: for every script name \<open>s\<close>, the script identifier is the lowercased name with every
  space replaced by an underscore; deriving the identifier of an identifier gives it back;
  the deployment identifier is \<open>customdeploy_\<close> followed by the identifier; and these are
  the identifiers \<open>runAdd\<close> puts in the template data, so that equal script names give
  equal identifiers. The lowering of an ASCII name is computed here. Of the lowering of
  other names by the Unicode tables, two facts are assumed: a lowered string is left as
  it is by another lowering, and lowering keeps spaces and underscores where they are.
\<close>

theorem C8_script_identifiers:
  assumes L1: "\<And>t. \<not> isASCII t \<Longrightarrow> ToLower U (MapToLower U t) = MapToLower U t"
    and L2: "\<And>t. \<not> isASCII t \<Longrightarrow>
               ToLower U (map spaceToUnderscore t) = map spaceToUnderscore (MapToLower U t)"
  shows "scriptId U s = map spaceToUnderscore (ToLower U s)
       \<and> scriptId U (scriptId U s) = scriptId U s
       \<and> deploymentId U s = ''customdeploy_'' @ scriptId U s
       \<and> dataScriptId (runAdd_data U date config s description recordType fileName)
           = ''customscript_'' @ scriptId U s
       \<and> dataDeploymentId (runAdd_data U date config s description recordType fileName)
           = deploymentId U s"
proof -
  let ?m = "ToLower U s"
  have fixed: "ToLower U ?m = ?m"
  proof (cases "isASCII s")
    case True
    then show ?thesis by (simp add: ToLower_def isASCII_lower lowerByte_idem)
  next
    case False
    then show ?thesis using L1[OF False] by (simp add: ToLower_def)
  qed
  have stable: "ToLower U (map spaceToUnderscore ?m) = map spaceToUnderscore ?m"
  proof (cases "isASCII ?m")
    case True
    then show ?thesis using fixed by (rule ToLower_ascii_stable)
  next
    case False
    from fixed False have "MapToLower U ?m = ?m" by (simp add: ToLower_def)
    with L2[OF False] show ?thesis by simp
  qed
  have "scriptId U (scriptId U s) = scriptId U s"
    unfolding scriptId_def ReplaceAll_space stable by (simp add: spaceToUnderscore_idem)
  then show ?thesis
    by (simp add: scriptId_def ReplaceAll_space deploymentId_def runAdd_data_def)
qed

text \<open>C8 on the script name \<open>My Report\<close> of the specification's example.\<close>

theorem C8_script_identifiers_witness:
  "scriptId asciiOnly (scriptId asciiOnly ''My Report'') = scriptId asciiOnly ''My Report''
   \<and> scriptId asciiOnly ''My Report'' = ''my_report''
   \<and> deploymentId asciiOnly ''My Report'' = ''customdeploy_my_report''"
proof -
  note t = C8_script_identifiers[where U=asciiOnly and s="''My Report''" and date="[]"
      and config=acme and description="[]" and recordType="[]" and fileName="[]",
      OF asciiOnly_lowering]
  from t have a: "scriptId asciiOnly (scriptId asciiOnly ''My Report'')
                    = scriptId asciiOnly ''My Report''"
    and b: "deploymentId asciiOnly ''My Report''
              = ''customdeploy_'' @ scriptId asciiOnly ''My Report''"
    by blast+
  have e: "scriptId asciiOnly ''My Report'' = ''my_report''"
    by code_simp
  show ?thesis
    by (intro conjI) (rule a, rule e, simp add: b e)
qed

subsection \<open>The selector\<close>

lemmas string_eval = TrimSpace_def ToLower_def isASCII_def RuneSelf_def lowerByte_def
  isUpperByte_def asciiSpace_def char_of_eq_iff take_bit_eq_mod

lemmas Atoi_eval = Atoi_def isDigitByte_def digitsValue_def Let_def

lemma Atoi_n: "Atoi ''n'' = Inl (Err ''invalid syntax'')"
  by (simp add: Atoi_def isDigitByte_def)

lemma Atoi_p: "Atoi ''p'' = Inl (Err ''invalid syntax'')"
  by (simp add: Atoi_def isDigitByte_def)

lemma totalPages_ceiling:
  "int (totalPages folders) = \<lceil>real (length folders) / 20\<rceil>"
proof -
  have "\<lceil>real (length folders) / 20\<rceil>
          = \<lceil>real_of_int (int (length folders)) / real_of_int 20\<rceil>"
    by simp
  also have "\<dots> = - ((- int (length folders)) div 20)"
    by (metis ceiling_divide_eq_div)
  finally show ?thesis
    unfolding totalPages_def pageSize_def by (simp add: zdiv_int)
qed

lemma selectScriptFolder_empty:
  assumes E: "findAllFolders dir [] (DirTree w (history s) dir) = []"
  shows "selectScriptFolder U w dir s =
     (case stdin s of
        [] \<Rightarrow>
          (s\<lparr>history := history s
               @ [Print (''\<newline>No folders found under SuiteScripts. ''
                    @ ''Place script in SuiteScripts root? (y/n): ''),
                  Print (''Error reading response: '' @ Error EOF @ ''\<newline>'')]\<rparr>,
           Exit 1)
      | answer # rest \<Rightarrow>
          if TrimSpace U (ToLower U answer) \<noteq> ''y'' \<and> TrimSpace U (ToLower U answer) \<noteq> ''yes''
          then (s\<lparr>stdin := rest,
                  history := history s
                    @ [Print (''\<newline>No folders found under SuiteScripts. ''
                         @ ''Place script in SuiteScripts root? (y/n): ''),
                       Print ''Cancelled. Script not created.\<newline>'']\<rparr>,
                Exit 0)
          else (s\<lparr>stdin := rest,
                  history := history s
                    @ [Print (''\<newline>No folders found under SuiteScripts. ''
                         @ ''Place script in SuiteScripts root? (y/n): '')]\<rparr>,
                Return ([], ''SuiteScripts/'')))"
  unfolding selectScriptFolder_def Let_def E seq_Print bind_ReadString
  by (simp add: fatal_run ret_def split: list.splits)

text \<open>
  C5: for a catalog that is not empty the number of pages is the number of entries
  divided by 20 and rounded up, and the selector shows the paginated menu; for the empty
  catalog the selector asks the root-placement question and never shows the menu.
\<close>

theorem C5_page_count:
  "(0 < length folders \<longrightarrow> int (totalPages folders) = \<lceil>real (length folders) / 20\<rceil>)
   \<and> (findAllFolders dir [] (DirTree w (history s) dir) \<noteq> [] \<longrightarrow>
        selectScriptFolder U w dir s =
          displayScrollableMenu U (findAllFolders dir [] (DirTree w (history s) dir))
            ''SuiteScripts/'' s)
   \<and> (findAllFolders dir [] (DirTree w (history s) dir) = [] \<longrightarrow>
        (\<exists>evs. history (fst (selectScriptFolder U w dir s))
                 = history s @ Print (''\<newline>No folders found under SuiteScripts. ''
                      @ ''Place script in SuiteScripts root? (y/n): '') # evs
             \<and> Print ''Available folders under SuiteScripts:\<newline>'' \<notin> set evs))"
proof (intro conjI impI)
  show "int (totalPages folders) = \<lceil>real (length folders) / 20\<rceil>"
    by (rule totalPages_ceiling)
next
  assume E: "findAllFolders dir [] (DirTree w (history s) dir) = []"
  show "\<exists>evs. history (fst (selectScriptFolder U w dir s))
                 = history s @ Print (''\<newline>No folders found under SuiteScripts. ''
                      @ ''Place script in SuiteScripts root? (y/n): '') # evs
             \<and> Print ''Available folders under SuiteScripts:\<newline>'' \<notin> set evs"
    unfolding selectScriptFolder_empty[OF E]
    by (cases "stdin s") (simp_all add: EOF_def)
next
  assume "findAllFolders dir [] (DirTree w (history s) dir) \<noteq> []"
  then show "selectScriptFolder U w dir s =
          displayScrollableMenu U (findAllFolders dir [] (DirTree w (history s) dir))
            ''SuiteScripts/'' s"
    by (simp add: selectScriptFolder_def Let_def)
qed

lemma manyFolders_length: "length manyFolders = 21"
  by (simp add: manyFolders_def)

lemma manyFolders_pages: "totalPages manyFolders = 2"
  by (simp add: totalPages_def pageSize_def manyFolders_length)

text \<open>C5 on the catalog of 21 folders, on a SuiteScripts directory with one folder, and
  on an empty SuiteScripts directory.\<close>

theorem C5_page_count_witness:
  "int (totalPages manyFolders) = 2
   \<and> selectScriptFolder asciiOnly (demoWorld (Directory [(''lib'', Directory [])]))
        ''SuiteScripts'' (start [])
      = displayScrollableMenu asciiOnly
          [\<lparr>Path = ''lib'', Display = ''lib'', FullPath = ''SuiteScripts/lib''\<rparr>]
          ''SuiteScripts/'' (start [])
   \<and> (\<exists>evs. history (fst (selectScriptFolder asciiOnly (demoWorld (Directory []))
                               ''SuiteScripts'' (start [''y''])))
                = Print (''\<newline>No folders found under SuiteScripts. ''
                    @ ''Place script in SuiteScripts root? (y/n): '') # evs
              \<and> Print ''Available folders under SuiteScripts:\<newline>'' \<notin> set evs)"
proof -
  let ?one = "demoWorld (Directory [(''lib'', Directory [])])"
  let ?none = "demoWorld (Directory [])"
  have one: "findAllFolders ''SuiteScripts'' [] (DirTree ?one (history (start [])) ''SuiteScripts'')
               = [\<lparr>Path = ''lib'', Display = ''lib'', FullPath = ''SuiteScripts/lib''\<rparr>]"
    by (simp add: demoWorld_def Repeat_def Join_def Clean_def joinWith_def cleanStep_def Let_def)
  have none: "findAllFolders ''SuiteScripts'' []
                (DirTree ?none (history (start [''y''])) ''SuiteScripts'') = []"
    by (simp add: demoWorld_def)
  have p: "\<lceil>real (length manyFolders) / 20\<rceil> = 2"
    unfolding manyFolders_length by (simp add: ceiling_eq_iff)
  note t1 = C5_page_count[where folders=manyFolders and dir="''SuiteScripts''" and w="?one"
      and s="start []" and U=asciiOnly]
  note t2 = C5_page_count[where folders=manyFolders and dir="''SuiteScripts''" and w="?none"
      and s="start [''y'']" and U=asciiOnly]
  from t1 p have a: "int (totalPages manyFolders) = 2"
    by (simp add: manyFolders_length)
  from t1 one have b: "selectScriptFolder asciiOnly ?one ''SuiteScripts'' (start [])
      = displayScrollableMenu asciiOnly
          [\<lparr>Path = ''lib'', Display = ''lib'', FullPath = ''SuiteScripts/lib''\<rparr>]
          ''SuiteScripts/'' (start [])"
    by simp
  from t2 none have c: "\<exists>evs. history (fst (selectScriptFolder asciiOnly ?none
                               ''SuiteScripts'' (start [''y''])))
                = Print (''\<newline>No folders found under SuiteScripts. ''
                    @ ''Place script in SuiteScripts root? (y/n): '') # evs
              \<and> Print ''Available folders under SuiteScripts:\<newline>'' \<notin> set evs"
    by (simp add: start_def)
  from a b c show ?thesis by blast
qed

text \<open>
  C2: for a catalog of \<open>N\<close> folders and one line of input, trimmed and lowercased to
  the token: the token \<open>n\<close> goes to the next page when there is one, and is answered with
  an error message on the same page when there is none; the integer 0 ends the selection
  with the root; an integer \<open>i\<close> from 1 to \<open>N\<close> ends it with entry \<open>i - 1\<close>; any other
  integer, and any token that is neither an integer nor \<open>n\<close> or \<open>p\<close>, is answered with an
  error message and a pause, and the selector prompts again on the same page.
\<close>

theorem C2_menu_step:
  "(TrimSpace U (ToLower U line) = ''n'' \<longrightarrow>
      menuStep U folders currentPage line =
        (if currentPage + 1 < totalPages folders then ([], Continue (currentPage + 1))
         else ([Print ''Invalid selection. Please enter a number'']
               @ (if totalPages folders > 1 then [Print '' or 'n'/'p' for navigation''] else [])
               @ [Print ''\<newline>'', Sleep 1], Continue currentPage)))
   \<and> (Atoi (TrimSpace U (ToLower U line)) = Inr 0 \<longrightarrow>
      menuStep U folders currentPage line = ([], Selected []))
   \<and> (Atoi (TrimSpace U (ToLower U line)) = Inr i \<and> 1 \<le> i \<and> i \<le> int (length folders) \<longrightarrow>
      menuStep U folders currentPage line = ([], Selected (Path (folders ! nat (i - 1)))))
   \<and> (Atoi (TrimSpace U (ToLower U line)) = Inr i \<and> (i < 0 \<or> int (length folders) < i) \<longrightarrow>
      menuStep U folders currentPage line =
        ([Print (''Invalid selection. Please choose between 0 and '' @ itoa (length folders)
            @ ''\<newline>''), Sleep 1], Continue currentPage))
   \<and> (Atoi (TrimSpace U (ToLower U line)) = Inl err
        \<and> TrimSpace U (ToLower U line) \<noteq> ''n'' \<and> TrimSpace U (ToLower U line) \<noteq> ''p'' \<longrightarrow>
      menuStep U folders currentPage line =
        ([Print ''Invalid selection. Please enter a number'']
         @ (if totalPages folders > 1 then [Print '' or 'n'/'p' for navigation''] else [])
         @ [Print ''\<newline>'', Sleep 1], Continue currentPage))"
proof (intro conjI impI)
  assume "TrimSpace U (ToLower U line) = ''n''"
  then show "menuStep U folders currentPage line =
        (if currentPage + 1 < totalPages folders then ([], Continue (currentPage + 1))
         else ([Print ''Invalid selection. Please enter a number'']
               @ (if totalPages folders > 1 then [Print '' or 'n'/'p' for navigation''] else [])
               @ [Print ''\<newline>'', Sleep 1], Continue currentPage))"
    by (auto simp add: menuStep_def Let_def Atoi_n)
next
  assume a: "Atoi (TrimSpace U (ToLower U line)) = Inr 0"
  then have "TrimSpace U (ToLower U line) \<noteq> ''n''" "TrimSpace U (ToLower U line) \<noteq> ''p''"
    using Atoi_n Atoi_p by auto
  with a show "menuStep U folders currentPage line = ([], Selected [])"
    by (simp add: menuStep_def Let_def)
next
  assume a: "Atoi (TrimSpace U (ToLower U line)) = Inr i \<and> 1 \<le> i \<and> i \<le> int (length folders)"
  then have "TrimSpace U (ToLower U line) \<noteq> ''n''" "TrimSpace U (ToLower U line) \<noteq> ''p''"
    using Atoi_n Atoi_p by auto
  with a show "menuStep U folders currentPage line
                 = ([], Selected (Path (folders ! nat (i - 1))))"
    by (simp add: menuStep_def Let_def)
next
  assume a: "Atoi (TrimSpace U (ToLower U line)) = Inr i \<and> (i < 0 \<or> int (length folders) < i)"
  then have "TrimSpace U (ToLower U line) \<noteq> ''n''" "TrimSpace U (ToLower U line) \<noteq> ''p''"
    using Atoi_n Atoi_p by auto
  with a show "menuStep U folders currentPage line =
        ([Print (''Invalid selection. Please choose between 0 and '' @ itoa (length folders)
            @ ''\<newline>''), Sleep 1], Continue currentPage)"
    by (auto simp add: menuStep_def Let_def)
next
  assume a: "Atoi (TrimSpace U (ToLower U line)) = Inl err
        \<and> TrimSpace U (ToLower U line) \<noteq> ''n'' \<and> TrimSpace U (ToLower U line) \<noteq> ''p''"
  then show "menuStep U folders currentPage line =
        ([Print ''Invalid selection. Please enter a number'']
         @ (if totalPages folders > 1 then [Print '' or 'n'/'p' for navigation''] else [])
         @ [Print ''\<newline>'', Sleep 1], Continue currentPage)"
    by (simp add: menuStep_def Let_def)
qed

text \<open>C2 on the catalog of 21 folders, on its first page, for the lines \<open>N\<close>, \<open>0\<close>,
  \<open>2\<close>, \<open>22\<close> and \<open>x\<close>.\<close>

theorem C2_menu_step_witness:
  "menuStep asciiOnly manyFolders 0 '' N\<newline>'' = ([], Continue 1)
   \<and> menuStep asciiOnly manyFolders 0 ''0\<newline>'' = ([], Selected [])
   \<and> menuStep asciiOnly manyFolders 0 ''2\<newline>'' = ([], Selected ''f2'')
   \<and> menuStep asciiOnly manyFolders 0 ''22\<newline>''
       = ([Print ''Invalid selection. Please choose between 0 and 21\<newline>'', Sleep 1], Continue 0)
   \<and> menuStep asciiOnly manyFolders 0 ''x\<newline>''
       = ([Print ''Invalid selection. Please enter a number'',
           Print '' or 'n'/'p' for navigation'', Print ''\<newline>'', Sleep 1], Continue 0)"
proof -
  have n: "TrimSpace asciiOnly (ToLower asciiOnly '' N\<newline>'') = ''n''"
    and z: "Atoi (TrimSpace asciiOnly (ToLower asciiOnly ''0\<newline>'')) = Inr 0"
    and two: "Atoi (TrimSpace asciiOnly (ToLower asciiOnly ''2\<newline>'')) = Inr 2"
    and big: "Atoi (TrimSpace asciiOnly (ToLower asciiOnly ''22\<newline>'')) = Inr 22"
    and x: "Atoi (TrimSpace asciiOnly (ToLower asciiOnly ''x\<newline>'')) = Inl (Err ''invalid syntax'')"
    and x': "TrimSpace asciiOnly (ToLower asciiOnly ''x\<newline>'') = ''x''"
    by (simp_all add: string_eval Atoi_eval)
  have f2: "Path (manyFolders ! Suc 0) = ''f2''"
    by (simp add: manyFolders_def nth_map_upt char_of_eq_iff take_bit_eq_mod)
  from C2_menu_step[where U=asciiOnly and line="'' N\<newline>''" and folders=manyFolders
      and currentPage=0] n
  have a: "menuStep asciiOnly manyFolders 0 '' N\<newline>'' = ([], Continue 1)"
    by (simp add: manyFolders_pages)
  from C2_menu_step[where U=asciiOnly and line="''0\<newline>''" and folders=manyFolders
      and currentPage=0] z
  have b: "menuStep asciiOnly manyFolders 0 ''0\<newline>'' = ([], Selected [])"
    by blast
  from C2_menu_step[where U=asciiOnly and line="''2\<newline>''" and folders=manyFolders
      and currentPage=0 and i=2] two
  have c: "menuStep asciiOnly manyFolders 0 ''2\<newline>'' = ([], Selected ''f2'')"
    by (simp add: manyFolders_length f2)
  from C2_menu_step[where U=asciiOnly and line="''22\<newline>''" and folders=manyFolders
      and currentPage=0 and i=22] big
  have d: "menuStep asciiOnly manyFolders 0 ''22\<newline>''
       = ([Print ''Invalid selection. Please choose between 0 and 21\<newline>'', Sleep 1], Continue 0)"
    by (simp add: manyFolders_length char_of_eq_iff take_bit_eq_mod)
  from C2_menu_step[where U=asciiOnly and line="''x\<newline>''" and folders=manyFolders
      and currentPage=0 and err="Err ''invalid syntax''"] x x'
  have e: "menuStep asciiOnly manyFolders 0 ''x\<newline>''
       = ([Print ''Invalid selection. Please enter a number'',
           Print '' or 'n'/'p' for navigation'', Print ''\<newline>'', Sleep 1], Continue 0)"
    by (simp add: manyFolders_pages)
  from a b c d e show ?thesis by blast
qed

subsection \<open>Adding a script\<close>





text \<open>Concrete runs in the example project.\<close>

lemma Join_work: "Join [''/work'', ''.netsuite-cli''] = ''/work/.netsuite-cli''"
  by (simp add: Join_def Clean_def joinWith_def cleanStep_def Let_def)

lemma LoadConfig_demo: "LoadConfig (demoWorld tree) (start lines) = Inr acme"
  by (simp add: LoadConfig_def os_Getwd_def os_Stat_def demoWorld_def start_def Join_work Let_def)


lemma templates_demo:
  "GetTemplates (demoWorld tree) scriptType s = (s, Return \<lparr>TypeScript = ''T'', XML = ''T''\<rparr>)"
  by (simp add: GetTemplates_def demoWorld_def run_simps ret_def)

lemma suiteScripts_demo:
  "findSuiteScriptsDir (demoWorld tree) s = (s, Return (Inr ''SuiteScripts''))"
  by (simp add: findSuiteScriptsDir_def statIsDir_def os_Stat_def demoWorld_def)


subsection \<open>The generated files\<close>

lemma renderAndWrite_Return:
  assumes "renderAndWrite w path tmplStr data s = (s', Return ())"
  shows "\<exists>buf. ExecuteResult w tmplStr data = Inr buf
           \<and> history s' = history s @ [WriteFile path buf]"
  using assms
  by (auto simp add: renderAndWrite_def run_simps ret_def split: option.splits sum.splits)

lemma findObjectsDir_Return:
  assumes "findObjectsDir w s = (s', Return (Inr objectsDir))"
  shows "(objectsDir = ''src/Objects'' \<or> objectsDir = ''Objects'')
         \<and> (history s' = history s \<or> history s' = history s @ [MkdirAll objectsDir])"
  using assms
  by (auto simp add: findObjectsDir_def run_simps ret_def Let_def
      split: option.splits if_splits dest!: find_Some_iff[THEN iffD1])

text \<open>The XML part of a run that returns.\<close>

lemma runAdd_xml_Return:
  assumes R: "runAdd_xml w scriptType projectName prefixedFileName xml data s = (s', Return ())"
  shows "\<exists>secondary. history s' = history s @ secondary \<and>
        (if xml = [] \<or> scriptType = ''common'' then secondary = []
         else (\<exists>objectsDir rootEvents.
           (objectsDir = ''src/Objects'' \<or> objectsDir = ''Objects'')
         \<and> (rootEvents = [] \<or> rootEvents = [MkdirAll objectsDir])
         \<and> (if getRecordType scriptType = [] then
               secondary = rootEvents
                 @ [Print (''Warning: No record type found for script type ''
                      @ apostrophe @ scriptType @ apostrophe @ ''. XML file not created.\<newline>'')]
             else
               (\<exists>xmlOut. ExecuteResult w xml data = Inr xmlOut
                  \<and> secondary = rootEvents
                      @ [MkdirAll (Join [objectsDir, projectName, getRecordType scriptType]),
                         WriteFile (Join [Join [objectsDir, projectName, getRecordType scriptType],
                                          prefixedFileName @ ''.xml'']) xmlOut,
                         Print (''Created ''
                           @ Join [Join [objectsDir, projectName, getRecordType scriptType],
                                   prefixedFileName @ ''.xml''] @ ''\<newline>'')]))))"
proof (cases "xml = [] \<or> scriptType = ''common''")
  case True
  then have n: "\<not> (xml \<noteq> [] \<and> scriptType \<noteq> ''common'')" by blast
  have "runAdd_xml w scriptType projectName prefixedFileName xml data s = (s, Return ())"
    unfolding runAdd_xml_def if_not_P[OF n] ret_def by (rule refl)
  with R have "s' = s" by simp
  then have "history s' = history s @ []" by simp
  then show ?thesis unfolding if_P[OF True] by blast
next
  case False
  then have c: "xml \<noteq> [] \<and> scriptType \<noteq> ''common''" by blast
  note R1 = R[unfolded runAdd_xml_def if_P[OF c]]
  from bind_sum_fatal_Return[OF R1] obtain s1 objectsDir where
    O: "findObjectsDir w s = (s1, Return (Inr objectsDir))" and
    K: "(let recordType = getRecordType scriptType in
               if recordType = [] then
                 fmt_Print (''Warning: No record type found for script type ''
                   @ apostrophe @ scriptType @ apostrophe @ ''. XML file not created.\<newline>'')
               else
                 (let xmlTargetDir = Join [objectsDir, projectName, recordType]
                  in bind (os_MkdirAll w xmlTargetDir) (\<lambda>r.
                       case r of
                         Some err \<Rightarrow>
                           fatal [''Error creating XML directory '' @ xmlTargetDir @ '': ''
                                  @ Error err @ ''\<newline>''] 1
                       | None \<Rightarrow>
                           (let xmlFileName = prefixedFileName @ ''.xml'';
                                xmlPath = Join [xmlTargetDir, xmlFileName]
                            in seq (renderAndWrite w xmlPath xml data)
                                   (fmt_Print (''Created '' @ xmlPath @ ''\<newline>'')))))) s1
      = (s', Return ())"
    by blast
  from findObjectsDir_Return[OF O]
  have od: "objectsDir = ''src/Objects'' \<or> objectsDir = ''Objects''"
    and s1: "history s1 = history s \<or> history s1 = history s @ [MkdirAll objectsDir]"
    by blast+
  define rootEvents where
    "rootEvents = (if history s1 = history s then [] else [MkdirAll objectsDir])"
  have h1: "history s1 = history s @ rootEvents"
    using s1 by (auto simp add: rootEvents_def)
  have re: "rootEvents = [] \<or> rootEvents = [MkdirAll objectsDir]"
    by (simp add: rootEvents_def)
  show ?thesis
  proof (cases "getRecordType scriptType = []")
    case True
    note K1 = K[unfolded Let_def if_P[OF True]]
    from Print_Return[OF K1] h1
    have "history s' = history s @ (rootEvents
            @ [Print (''Warning: No record type found for script type ''
                 @ apostrophe @ scriptType @ apostrophe @ ''. XML file not created.\<newline>'')])"
      by (simp only: append_assoc)
    with od re show ?thesis
      unfolding if_not_P[OF False] if_P[OF True] by blast
  next
    case F2: False
    let ?dir = "Join [objectsDir, projectName, getRecordType scriptType]"
    let ?path = "Join [?dir, prefixedFileName @ ''.xml'']"
    note K1 = K[unfolded Let_def if_not_P[OF F2]]
    from bind_option_fatal_Return[OF K1] obtain s2 where
      M: "os_MkdirAll w ?dir s1 = (s2, Return None)" and
      W: "seq (renderAndWrite w ?path xml data) (fmt_Print (''Created '' @ ?path @ ''\<newline>'')) s2
            = (s', Return ())"
      by blast
    from seq_Return[OF W] obtain s3 where
      W1: "renderAndWrite w ?path xml data s2 = (s3, Return ())"
      and W2: "fmt_Print (''Created '' @ ?path @ ''\<newline>'') s3 = (s', Return ())"
      by blast
    from renderAndWrite_Return[OF W1] obtain xmlOut where
      X: "ExecuteResult w xml data = Inr xmlOut"
      and s3: "history s3 = history s2 @ [WriteFile ?path xmlOut]"
      by blast
    have "history s' = history s @ (rootEvents
            @ [MkdirAll ?dir, WriteFile ?path xmlOut, Print (''Created '' @ ?path @ ''\<newline>'')])"
      unfolding Print_Return[OF W2] s3 MkdirAll_Return[OF M] h1
      by (simp only: append_assoc append_Cons append_Nil)
    with X od re show ?thesis
      unfolding if_not_P[OF False] if_not_P[OF F2] by blast
  qed
qed

text \<open>The TypeScript part of a run that returns, from the selection of the folder
  on.\<close>

lemma runAdd_generate_Return:
  assumes T: "GetTemplates w scriptType s0 = (s1, Return templates)"
    and F: "findSuiteScriptsDir w s1 = (s2, Return (Inr suiteScriptsDir))"
    and S: "selectScriptFolder U w suiteScriptsDir s2 = (s3, Return (selectedFolder, pfx))"
    and R: "runAdd_generate U w scriptType (config, scriptName, description, recordType) s0
              = (s', Return ())"
  shows "\<exists>tsOut s4.
           history s4 = history s3
             @ [MkdirAll (Join [suiteScriptsDir, selectedFolder]),
                WriteFile (Join [Join [suiteScriptsDir, selectedFolder],
                                 GetCompanyPrefix U (CompanyName config) @ ''_'' @ scriptName
                                 @ ''_'' @ scriptType @ ''.ts'']) tsOut,
                Print (''Created ''
                  @ Join [Join [suiteScriptsDir, selectedFolder],
                          GetCompanyPrefix U (CompanyName config) @ ''_'' @ scriptName
                          @ ''_'' @ scriptType @ ''.ts''] @ ''\<newline>'')]
         \<and> ExecuteResult w (TypeScript templates)
               ((runAdd_data U (Today w (history s0)) config scriptName description recordType
                  (GetCompanyPrefix U (CompanyName config) @ ''_'' @ scriptName @ ''_''
                   @ scriptType))
                \<lparr>dataScriptPath := runAdd_scriptPath pfx selectedFolder
                  (GetCompanyPrefix U (CompanyName config) @ ''_'' @ scriptName @ ''_''
                   @ scriptType)\<rparr>)
             = Inr tsOut
         \<and> runAdd_xml w scriptType (ProjectName config)
               (GetCompanyPrefix U (CompanyName config) @ ''_'' @ scriptName) (XML templates)
               ((runAdd_data U (Today w (history s0)) config scriptName description recordType
                  (GetCompanyPrefix U (CompanyName config) @ ''_'' @ scriptName @ ''_''
                   @ scriptType))
                \<lparr>dataScriptPath := runAdd_scriptPath pfx selectedFolder
                  (GetCompanyPrefix U (CompanyName config) @ ''_'' @ scriptName @ ''_''
                   @ scriptType)\<rparr>)
               s4
             = (s', Return ())"
proof -
  let ?dir = "Join [suiteScriptsDir, selectedFolder]"
  let ?file = "GetCompanyPrefix U (CompanyName config) @ ''_'' @ scriptName @ ''_'' @ scriptType"
  let ?path = "Join [?dir, ?file @ ''.ts'']"
  let ?data = "(runAdd_data U (Today w (history s0)) config scriptName description recordType ?file)
                \<lparr>dataScriptPath := runAdd_scriptPath pfx selectedFolder ?file\<rparr>"
  let ?xml = "runAdd_xml w scriptType (ProjectName config)
               (GetCompanyPrefix U (CompanyName config) @ ''_'' @ scriptName) (XML templates) ?data"
  note R1 = R[unfolded runAdd_generate_def prod.case Let_def
      bind_Return[where m="GetTemplates w scriptType", OF T]
      bind_Return[where m="findSuiteScriptsDir w", OF F] sum.case
      bind_Return[where m="selectScriptFolder U w suiteScriptsDir", OF S]
      ReplaceAll_same append_assoc]
  from bind_option_fatal_Return[OF R1] obtain t1 where
    M: "os_MkdirAll w ?dir s3 = (t1, Return None)" and
    K: "seq (renderAndWrite w ?path (TypeScript templates) ?data)
          (seq (fmt_Print (''Created '' @ ?path @ ''\<newline>'')) ?xml) t1 = (s', Return ())"
    unfolding append_assoc by blast
  from seq_Return[OF K] obtain t2 where
    W: "renderAndWrite w ?path (TypeScript templates) ?data t1 = (t2, Return ())" and
    K2: "seq (fmt_Print (''Created '' @ ?path @ ''\<newline>'')) ?xml t2 = (s', Return ())"
    by blast
  from seq_Return[OF K2] obtain t3 where
    P: "fmt_Print (''Created '' @ ?path @ ''\<newline>'') t2 = (t3, Return ())" and
    X: "?xml t3 = (s', Return ())"
    by blast
  from renderAndWrite_Return[OF W] obtain tsOut where
    E: "ExecuteResult w (TypeScript templates) ?data = Inr tsOut" and
    h2: "history t2 = history t1 @ [WriteFile ?path tsOut]"
    by blast
  have "history t3 = history s3 @ [MkdirAll ?dir, WriteFile ?path tsOut,
          Print (''Created '' @ ?path @ ''\<newline>'')]"
    unfolding Print_Return[OF P] h2 MkdirAll_Return[OF M] append_three by (rule refl)
  with E X show ?thesis unfolding append_assoc by blast
qed





lemma demo_select_root:
  "selectScriptFolder asciiOnly (demoWorld (Directory [])) ''SuiteScripts''
     \<lparr>stdin = [''y\<newline>''], cwd = ''/work'', history = h\<rparr>
   = (\<lparr>stdin = [], cwd = ''/work'',
       history = h @ [Print (''\<newline>No folders found under SuiteScripts. ''
                         @ ''Place script in SuiteScripts root? (y/n): '')]\<rparr>,
      Return ([], ''SuiteScripts/''))"
proof -
  have E: "findAllFolders ''SuiteScripts'' []
             (DirTree (demoWorld (Directory []))
                (history \<lparr>stdin = [''y\<newline>''], cwd = ''/work'', history = h\<rparr>)
                ''SuiteScripts'') = []"
    by (simp add: demoWorld_def)
  show ?thesis
    unfolding selectScriptFolder_empty[OF E] by (simp add: string_eval)
qed

lemma demo_paths:
  "GetCompanyPrefix asciiOnly (CompanyName acme) = ''acm''"
  "GetCompanyPrefix asciiOnly ''Acme'' = ''acm''"
  "Join [''SuiteScripts'', []] = ''SuiteScripts''"
  "Join [''SuiteScripts'', ''acm_My Report_suitelet.ts''] = ''SuiteScripts/acm_My Report_suitelet.ts''"
  "Join [''SuiteScripts'', ''acm_My Report_userevent.ts''] = ''SuiteScripts/acm_My Report_userevent.ts''"
  "Join [''Objects'', ''acme-proj'', ''suitelet''] = ''Objects/acme-proj/suitelet''"
  "Join [''Objects'', ''acme-proj'', ''usereventscript''] = ''Objects/acme-proj/usereventscript''"
  "Join [''Objects/acme-proj/suitelet'', ''acm_My Report.xml'']
     = ''Objects/acme-proj/suitelet/acm_My Report.xml''"
  "Join [''Objects/acme-proj/usereventscript'', ''acm_My Report.xml'']
     = ''Objects/acme-proj/usereventscript/acm_My Report.xml''"
  by (simp_all add: GetCompanyPrefix_def acme_def string_eval Join_def Clean_def joinWith_def
      cleanStep_def Let_def)

lemmas demo_eval = bind_def seq_def fmt_Print_def emit_def os_MkdirAll_def os_WriteFile_def
  fatal_run renderAndWrite_def runAdd_xml_def findObjectsDir_def statIsDir_def statOk_def
  os_Stat_def demoWorld_def ret_def Let_def



lemma getRecordType_fixed:
  "getRecordType ''userevent'' = ''usereventscript''"
  "getRecordType ''workflowaction'' = ''workflowactionscript''"
  by (simp_all add: getRecordType_def recordTypeMap_def)

lemma renderAndWrite_cong:
  assumes "ExecuteResult w tmplStr data = ExecuteResult w tmplStr data'"
  shows "renderAndWrite w path tmplStr data = renderAndWrite w path tmplStr data'"
  unfolding renderAndWrite_def assms by (rule refl)

lemma runAdd_xml_cong:
  assumes "ExecuteResult w xml data = ExecuteResult w xml data'"
  shows "runAdd_xml w scriptType projectName prefixedFileName xml data
         = runAdd_xml w scriptType projectName prefixedFileName xml data'"
  unfolding runAdd_xml_def renderAndWrite_cong[OF assms] by (rule refl)

lemma runAdd_data_recordType:
  "(runAdd_data U date config scriptName description other fileName)
     \<lparr>dataScriptPath := path\<rparr>
   = ((runAdd_data U date config scriptName description recordType fileName)
        \<lparr>dataScriptPath := path\<rparr>)\<lparr>dataRecordType := other\<rparr>"
  by (simp add: runAdd_data_def)

text \<open>
  C10: for a user event or workflow action script with an XML template, a run of the add
  operation that returns normally creates the directory of the XML file under the fixed
  record type of the script type, \<open>usereventscript\<close> or \<open>workflowactionscript\<close>, and
  writes the XML file there; the record type entered at the prompt is the field
  \<open>RecordType\<close> of the template data that is rendered. It is used nowhere else: when
  the rendering of templates does not look at that field, the run is the same for any
  other record type.
\<close>

theorem C10_record_type_directory:
  assumes st: "scriptType = ''userevent'' \<or> scriptType = ''workflowaction''"
    and X: "XML templates \<noteq> []"
    and T: "GetTemplates w scriptType s0 = (s1, Return templates)"
    and F: "findSuiteScriptsDir w s1 = (s2, Return (Inr suiteScriptsDir))"
    and S: "selectScriptFolder U w suiteScriptsDir s2 = (s3, Return (selectedFolder, pfx))"
    and R: "runAdd_generate U w scriptType (config, scriptName, description, recordType) s0
              = (s', Return ())"
  shows "(\<exists>tsOut xmlOut objectsDir rootEvents data.
            (objectsDir = ''src/Objects'' \<or> objectsDir = ''Objects'')
          \<and> (rootEvents = [] \<or> rootEvents = [MkdirAll objectsDir])
          \<and> dataRecordType data = recordType
          \<and> ExecuteResult w (XML templates) data = Inr xmlOut
          \<and> history s' = history s3
               @ [MkdirAll (Join [suiteScriptsDir, selectedFolder]),
                  WriteFile (Join [Join [suiteScriptsDir, selectedFolder],
                                   GetCompanyPrefix U (CompanyName config) @ ''_'' @ scriptName
                                   @ ''_'' @ scriptType @ ''.ts'']) tsOut,
                  Print (''Created ''
                    @ Join [Join [suiteScriptsDir, selectedFolder],
                            GetCompanyPrefix U (CompanyName config) @ ''_'' @ scriptName
                            @ ''_'' @ scriptType @ ''.ts''] @ ''\<newline>'')]
               @ rootEvents
               @ [MkdirAll (Join [objectsDir, ProjectName config,
                                  if scriptType = ''userevent'' then ''usereventscript''
                                  else ''workflowactionscript'']),
                  WriteFile (Join [Join [objectsDir, ProjectName config,
                                         if scriptType = ''userevent'' then ''usereventscript''
                                         else ''workflowactionscript''],
                                   GetCompanyPrefix U (CompanyName config) @ ''_''
                                   @ scriptName @ ''.xml'']) xmlOut,
                  Print (''Created ''
                    @ Join [Join [objectsDir, ProjectName config,
                                  if scriptType = ''userevent'' then ''usereventscript''
                                  else ''workflowactionscript''],
                            GetCompanyPrefix U (CompanyName config) @ ''_''
                            @ scriptName @ ''.xml''] @ ''\<newline>'')])
       \<and> ((\<forall>t d r. ExecuteResult w t (d\<lparr>dataRecordType := r\<rparr>) = ExecuteResult w t d) \<longrightarrow>
            runAdd_generate U w scriptType (config, scriptName, description, other) s0
            = runAdd_generate U w scriptType (config, scriptName, description, recordType) s0)"
proof (intro conjI impI)
  let ?tag = "if scriptType = ''userevent'' then ''usereventscript'' else ''workflowactionscript''"
  have tag: "getRecordType scriptType = ?tag"
    using st by (auto simp add: getRecordType_fixed)
  have nc: "\<not> (XML templates = [] \<or> scriptType = ''common'')"
    using st X by auto
  have ne: "getRecordType scriptType \<noteq> []"
    using st by (auto simp add: getRecordType_fixed)
  have ne': "?tag \<noteq> []"
    by simp
  from runAdd_generate_Return[OF T F S R] obtain tsOut s4 where
    h4: "history s4 = history s3
             @ [MkdirAll (Join [suiteScriptsDir, selectedFolder]),
                WriteFile (Join [Join [suiteScriptsDir, selectedFolder],
                                 GetCompanyPrefix U (CompanyName config) @ ''_'' @ scriptName
                                 @ ''_'' @ scriptType @ ''.ts'']) tsOut,
                Print (''Created ''
                  @ Join [Join [suiteScriptsDir, selectedFolder],
                          GetCompanyPrefix U (CompanyName config) @ ''_'' @ scriptName
                          @ ''_'' @ scriptType @ ''.ts''] @ ''\<newline>'')]"
    and Xr: "runAdd_xml w scriptType (ProjectName config)
               (GetCompanyPrefix U (CompanyName config) @ ''_'' @ scriptName) (XML templates)
               ((runAdd_data U (Today w (history s0)) config scriptName description recordType
                  (GetCompanyPrefix U (CompanyName config) @ ''_'' @ scriptName @ ''_''
                   @ scriptType))
                \<lparr>dataScriptPath := runAdd_scriptPath pfx selectedFolder
                  (GetCompanyPrefix U (CompanyName config) @ ''_'' @ scriptName @ ''_''
                   @ scriptType)\<rparr>) s4 = (s', Return ())"
    by blast
  let ?data = "(runAdd_data U (Today w (history s0)) config scriptName description recordType
                  (GetCompanyPrefix U (CompanyName config) @ ''_'' @ scriptName @ ''_''
                   @ scriptType))
                \<lparr>dataScriptPath := runAdd_scriptPath pfx selectedFolder
                  (GetCompanyPrefix U (CompanyName config) @ ''_'' @ scriptName @ ''_''
                   @ scriptType)\<rparr>"
  have dr: "dataRecordType ?data = recordType"
    by (simp add: runAdd_data_def)
  from runAdd_xml_Return[OF Xr, unfolded if_not_P[OF nc] if_not_P[OF ne] tag if_not_P[OF ne']
      append_assoc]
  obtain secondary where
    hs: "history s' = history s4 @ secondary"
    and C: "\<exists>objectsDir rootEvents.
              (objectsDir = ''src/Objects'' \<or> objectsDir = ''Objects'')
            \<and> (rootEvents = [] \<or> rootEvents = [MkdirAll objectsDir])
            \<and> (\<exists>xmlOut. ExecuteResult w (XML templates) ?data = Inr xmlOut
                  \<and> secondary = rootEvents
                @ [MkdirAll (Join [objectsDir, ProjectName config, ?tag]),
                   WriteFile (Join [Join [objectsDir, ProjectName config, ?tag],
                                    GetCompanyPrefix U (CompanyName config) @ ''_''
                                    @ scriptName @ ''.xml'']) xmlOut,
                   Print (''Created ''
                     @ Join [Join [objectsDir, ProjectName config, ?tag],
                             GetCompanyPrefix U (CompanyName config) @ ''_''
                             @ scriptName @ ''.xml''] @ ''\<newline>'')])"
    by - (erule exE, erule conjE, rule that)
  from C obtain objectsDir rootEvents where
    od: "objectsDir = ''src/Objects'' \<or> objectsDir = ''Objects''"
    and re: "rootEvents = [] \<or> rootEvents = [MkdirAll objectsDir]"
    and C2: "\<exists>xmlOut. ExecuteResult w (XML templates) ?data = Inr xmlOut
                  \<and> secondary = rootEvents
                @ [MkdirAll (Join [objectsDir, ProjectName config, ?tag]),
                   WriteFile (Join [Join [objectsDir, ProjectName config, ?tag],
                                    GetCompanyPrefix U (CompanyName config) @ ''_''
                                    @ scriptName @ ''.xml'']) xmlOut,
                   Print (''Created ''
                     @ Join [Join [objectsDir, ProjectName config, ?tag],
                             GetCompanyPrefix U (CompanyName config) @ ''_''
                             @ scriptName @ ''.xml''] @ ''\<newline>'')]"
    by - (erule exE, erule exE, erule conjE, erule conjE, rule that)
  from C2 obtain xmlOut where
    ex: "ExecuteResult w (XML templates) ?data = Inr xmlOut"
    and sec: "secondary = rootEvents
                @ [MkdirAll (Join [objectsDir, ProjectName config, ?tag]),
                   WriteFile (Join [Join [objectsDir, ProjectName config, ?tag],
                                    GetCompanyPrefix U (CompanyName config) @ ''_''
                                    @ scriptName @ ''.xml'']) xmlOut,
                   Print (''Created ''
                     @ Join [Join [objectsDir, ProjectName config, ?tag],
                             GetCompanyPrefix U (CompanyName config) @ ''_''
                             @ scriptName @ ''.xml''] @ ''\<newline>'')]"
    by - (erule exE, erule conjE, rule that)
  have H: "history s' = history s3
               @ [MkdirAll (Join [suiteScriptsDir, selectedFolder]),
                  WriteFile (Join [Join [suiteScriptsDir, selectedFolder],
                                   GetCompanyPrefix U (CompanyName config) @ ''_'' @ scriptName
                                   @ ''_'' @ scriptType @ ''.ts'']) tsOut,
                  Print (''Created ''
                    @ Join [Join [suiteScriptsDir, selectedFolder],
                            GetCompanyPrefix U (CompanyName config) @ ''_'' @ scriptName
                            @ ''_'' @ scriptType @ ''.ts''] @ ''\<newline>'')]
               @ rootEvents
               @ [MkdirAll (Join [objectsDir, ProjectName config, ?tag]),
                  WriteFile (Join [Join [objectsDir, ProjectName config, ?tag],
                                   GetCompanyPrefix U (CompanyName config) @ ''_''
                                   @ scriptName @ ''.xml'']) xmlOut,
                  Print (''Created ''
                    @ Join [Join [objectsDir, ProjectName config, ?tag],
                            GetCompanyPrefix U (CompanyName config) @ ''_''
                            @ scriptName @ ''.xml''] @ ''\<newline>'')]"
    unfolding hs h4 sec by (simp only: append_assoc)
  show "\<exists>tsOut xmlOut objectsDir rootEvents data.
            (objectsDir = ''src/Objects'' \<or> objectsDir = ''Objects'')
          \<and> (rootEvents = [] \<or> rootEvents = [MkdirAll objectsDir])
          \<and> dataRecordType data = recordType
          \<and> ExecuteResult w (XML templates) data = Inr xmlOut
          \<and> history s' = history s3
               @ [MkdirAll (Join [suiteScriptsDir, selectedFolder]),
                  WriteFile (Join [Join [suiteScriptsDir, selectedFolder],
                                   GetCompanyPrefix U (CompanyName config) @ ''_'' @ scriptName
                                   @ ''_'' @ scriptType @ ''.ts'']) tsOut,
                  Print (''Created ''
                    @ Join [Join [suiteScriptsDir, selectedFolder],
                            GetCompanyPrefix U (CompanyName config) @ ''_'' @ scriptName
                            @ ''_'' @ scriptType @ ''.ts''] @ ''\<newline>'')]
               @ rootEvents
               @ [MkdirAll (Join [objectsDir, ProjectName config, ?tag]),
                  WriteFile (Join [Join [objectsDir, ProjectName config, ?tag],
                                   GetCompanyPrefix U (CompanyName config) @ ''_''
                                   @ scriptName @ ''.xml'']) xmlOut,
                  Print (''Created ''
                    @ Join [Join [objectsDir, ProjectName config, ?tag],
                            GetCompanyPrefix U (CompanyName config) @ ''_''
                            @ scriptName @ ''.xml''] @ ''\<newline>'')]"
    by (intro exI conjI) (rule od, rule re, rule dr, rule ex, rule H)
next
  assume ign: "\<forall>t d r. ExecuteResult w t (d\<lparr>dataRecordType := r\<rparr>) = ExecuteResult w t d"
  have eq: "\<And>t date fileName path.
      ExecuteResult w t
        ((runAdd_data U date config scriptName description other fileName)
           \<lparr>dataScriptPath := path\<rparr>)
      = ExecuteResult w t
        ((runAdd_data U date config scriptName description recordType fileName)
           \<lparr>dataScriptPath := path\<rparr>)"
    by (subst runAdd_data_recordType[where recordType=recordType]) (simp only: ign)
  show "runAdd_generate U w scriptType (config, scriptName, description, other) s0
        = runAdd_generate U w scriptType (config, scriptName, description, recordType) s0"
    unfolding runAdd_generate_def prod.case Let_def
      renderAndWrite_cong[OF eq] runAdd_xml_cong[OF eq]
    by (rule refl)
qed

lemma inputs_userevent_demo:
  "runAdd_inputs asciiOnly (demoWorld tree) ''userevent'' [''My Report'']
     (start (''\<newline>'' # ''CUSTOMER\<newline>'' # lines))
   = (afterRecordType lines, Return (acme, ''My Report'', ''My Report description'', ''CUSTOMER''))"
  unfolding runAdd_inputs_def LoadConfig_demo sum.case Let_def
  by (simp add: run_simps bind_def seq_def ReadString_def start_def ret_def afterRecordType_def string_eval)

lemma userevent_run:
  "usereventRun recordType
   = (\<lparr>stdin = [], cwd = ''/work'',
       history =
         [Print ''Enter script description'',
          Print '' (default: My Report description)'', Print '': '',
          Print ''Enter record type (e.g., CUSTOMER, SALESORDER, INVOICE): '',
          Print (''\<newline>No folders found under SuiteScripts. ''
            @ ''Place script in SuiteScripts root? (y/n): ''),
          MkdirAll ''SuiteScripts'',
          WriteFile ''SuiteScripts/acm_My Report_userevent.ts'' ''T'',
          Print ''Created SuiteScripts/acm_My Report_userevent.ts\<newline>'',
          MkdirAll ''Objects'',
          MkdirAll ''Objects/acme-proj/usereventscript'',
          WriteFile ''Objects/acme-proj/usereventscript/acm_My Report.xml'' ''T'',
          Print ''Created Objects/acme-proj/usereventscript/acm_My Report.xml\<newline>'']\<rparr>,
      Return ())"
  unfolding usereventRun_def runAdd_generate_def prod.case Let_def
      bind_Return[where m="GetTemplates (demoWorld (Directory [])) ''userevent''", OF templates_demo]
      bind_Return[where m="findSuiteScriptsDir (demoWorld (Directory []))", OF suiteScripts_demo]
      sum.case afterRecordType_def
      bind_Return[where m="selectScriptFolder asciiOnly (demoWorld (Directory [])) ''SuiteScripts''", OF demo_select_root]
      demo_paths
  by (simp add: demo_paths demo_eval getRecordType_fixed acme_def)

text \<open>C10 in the example project: a user event script \<open>My Report\<close> with the record type
  \<open>CUSTOMER\<close> entered at the prompt, placed at the root; and the same run with
  \<open>INVOICE\<close>.\<close>

theorem C10_record_type_directory_witness:
  "runAdd asciiOnly (demoWorld (Directory [])) ''userevent'' [''My Report'']
     (start [''\<newline>'', ''CUSTOMER\<newline>'', ''y\<newline>'']) = usereventRun ''CUSTOMER''
   \<and> (\<exists>tsOut xmlOut objectsDir rootEvents data.
          (objectsDir = ''src/Objects'' \<or> objectsDir = ''Objects'')
        \<and> (rootEvents = [] \<or> rootEvents = [MkdirAll objectsDir])
        \<and> dataRecordType data = ''CUSTOMER''
        \<and> ExecuteResult (demoWorld (Directory [])) ''T'' data = Inr xmlOut
        \<and> history (fst (usereventRun ''CUSTOMER''))
            = [Print ''Enter script description'',
               Print '' (default: My Report description)'', Print '': '',
               Print ''Enter record type (e.g., CUSTOMER, SALESORDER, INVOICE): '',
               Print (''\<newline>No folders found under SuiteScripts. ''
                 @ ''Place script in SuiteScripts root? (y/n): ''),
               MkdirAll ''SuiteScripts'',
               WriteFile ''SuiteScripts/acm_My Report_userevent.ts'' tsOut,
               Print ''Created SuiteScripts/acm_My Report_userevent.ts\<newline>'']
              @ rootEvents
              @ [MkdirAll (Join [objectsDir, ''acme-proj'', ''usereventscript'']),
                 WriteFile (Join [Join [objectsDir, ''acme-proj'', ''usereventscript''],
                                  ''acm_My Report.xml'']) xmlOut,
                 Print (''Created '' @ Join [Join [objectsDir, ''acme-proj'', ''usereventscript''],
                                  ''acm_My Report.xml''] @ ''\<newline>'')])
   \<and> usereventRun ''INVOICE'' = usereventRun ''CUSTOMER''"
proof -
  have st: "''userevent'' = ''userevent'' \<or> ''userevent'' = ''workflowaction''"
    by simp
  have X: "XML \<lparr>TypeScript = ''T'', XML = ''T''\<rparr> \<noteq> []"
    by simp
  have R: "runAdd_generate asciiOnly (demoWorld (Directory [])) ''userevent''
             (acme, ''My Report'', ''My Report description'', ''CUSTOMER'')
             (afterRecordType [''y\<newline>''])
           = (fst (usereventRun ''CUSTOMER''), Return ())"
    unfolding usereventRun_def[symmetric] userevent_run by simp
  have S: "selectScriptFolder asciiOnly (demoWorld (Directory [])) ''SuiteScripts''
             (afterRecordType [''y\<newline>''])
           = (\<lparr>stdin = [], cwd = ''/work'',
               history = [Print ''Enter script description'',
                 Print '' (default: My Report description)'', Print '': '',
                 Print ''Enter record type (e.g., CUSTOMER, SALESORDER, INVOICE): '']
                 @ [Print (''\<newline>No folders found under SuiteScripts. ''
                         @ ''Place script in SuiteScripts root? (y/n): '')]\<rparr>,
              Return ([], ''SuiteScripts/''))"
    unfolding afterRecordType_def by (rule demo_select_root)
  have ign: "\<forall>t d r. ExecuteResult (demoWorld (Directory [])) t (d\<lparr>dataRecordType := r\<rparr>)
               = ExecuteResult (demoWorld (Directory [])) t d"
    by (simp add: demoWorld_def)
  note t = C10_record_type_directory[where other="''INVOICE''",
      OF st X templates_demo suiteScripts_demo S R]
  have a: "runAdd asciiOnly (demoWorld (Directory [])) ''userevent'' [''My Report'']
     (start [''\<newline>'', ''CUSTOMER\<newline>'', ''y\<newline>'']) = usereventRun ''CUSTOMER''"
    unfolding runAdd_def usereventRun_def
      bind_Return[where m="runAdd_inputs asciiOnly (demoWorld (Directory [])) ''userevent'' [''My Report'']", OF inputs_userevent_demo]
    by (rule refl)
  from t ign have c: "usereventRun ''INVOICE'' = usereventRun ''CUSTOMER''"
    unfolding usereventRun_def by blast
  from t have b: "\<exists>tsOut xmlOut objectsDir rootEvents data.
          (objectsDir = ''src/Objects'' \<or> objectsDir = ''Objects'')
        \<and> (rootEvents = [] \<or> rootEvents = [MkdirAll objectsDir])
        \<and> dataRecordType data = ''CUSTOMER''
        \<and> ExecuteResult (demoWorld (Directory [])) ''T'' data = Inr xmlOut
        \<and> history (fst (usereventRun ''CUSTOMER''))
            = [Print ''Enter script description'',
               Print '' (default: My Report description)'', Print '': '',
               Print ''Enter record type (e.g., CUSTOMER, SALESORDER, INVOICE): '',
               Print (''\<newline>No folders found under SuiteScripts. ''
                 @ ''Place script in SuiteScripts root? (y/n): ''),
               MkdirAll ''SuiteScripts'',
               WriteFile ''SuiteScripts/acm_My Report_userevent.ts'' tsOut,
               Print ''Created SuiteScripts/acm_My Report_userevent.ts\<newline>'']
              @ rootEvents
              @ [MkdirAll (Join [objectsDir, ''acme-proj'', ''usereventscript'']),
                 WriteFile (Join [Join [objectsDir, ''acme-proj'', ''usereventscript''],
                                  ''acm_My Report.xml'']) xmlOut,
                 Print (''Created '' @ Join [Join [objectsDir, ''acme-proj'', ''usereventscript''],
                                  ''acm_My Report.xml''] @ ''\<newline>'')]"
    by (simp add: demo_paths acme_def)
  from a b c show ?thesis by (intro conjI)
qed

subsection \<open>Creating a project\<close>

lemma Join_home: "Join [''/home/jdoe'', ''.netsuite-cli''] = ''/home/jdoe/.netsuite-cli''"
  by (simp add: Join_def Clean_def joinWith_def cleanStep_def Let_def)

lemma LoadUserConfig_nowhere: "LoadUserConfig failingCreate s = Inr None"
  by (simp add: LoadUserConfig_def failingCreate_def nowhere_def demoWorld_def os_Stat_def
      Join_home Let_def)

lemma init_inputs_demo:
  "runInit_inputs asciiOnly failingCreate demoFlags
     (start [''Acme\<newline>'', ''\<newline>'', ''jdoe@x.com\<newline>''])
   = (afterNames, Return (''suitecloud'', ''demo'', ''Acme'', ''jdoe'', ''jdoe@x.com''))"
  unfolding runInit_inputs_def LoadUserConfig_nowhere sum.case Let_def
  by (simp add: run_simps bind_def seq_def ReadString_def start_def ret_def afterNames_def
      string_eval getSuiteCloudCommand_def promptWithDefault_def failingCreate_def nowhere_def
      demoWorld_def demoFlags_def ContainsAny_def Let_def)

lemma Join_out: "Join [''/work'', ''out''] = ''/work/out''"
  "Join [''/work/out'', ''demo''] = ''/work/out/demo''"
  by (simp_all add: Join_def Clean_def joinWith_def cleanStep_def Let_def)

lemma init_create_demo:
  "runInit_create failingCreate demoFlags (''suitecloud'', ''demo'', ''Acme'', ''jdoe'', ''jdoe@x.com'')
     afterNames
   = (\<lparr>stdin = [], cwd = ''/work/out'',
       history = [Print ''Enter company name'', Print '': '',
                  Print ''Enter user name'', Print '' (default: jdoe)'', Print '': '',
                  Print ''Enter user email'', Print '': '',
                  Print ''Creating project 'demo' (type: ACCOUNTCUSTOMIZATION)...\<newline>'',
                  Chdir ''/work/out'',
                  Run ''suitecloud''
                    [''project:create'', ''--type'', ''ACCOUNTCUSTOMIZATION'', ''--projectname'', ''demo'']
                    [],
                  Print ''Error creating project: exit status 1\<newline>'']\<rparr>,
      Exit 1)"
  unfolding runInit_create_def prod.case
  by (simp add: os_Getwd_def afterNames_def failingCreate_def nowhere_def demoWorld_def
      demoFlags_def IsAbs_def Join_out statOk_def os_Stat_def Let_def seq_def bind_def
      fmt_Print_def emit_def os_Chdir_def withDefer_def exec_Run_def fatal_run projectType_def
      apostrophe_def)

text \<open>
  C7 fails on the path where the suitecloud command cannot create the project. The
  restoration is the deferred call \<open>os.Chdir(originalDir)\<close>, and a deferred call does not
  run when the process ends with \<open>os.Exit\<close>: \<open>create --name demo --output out\<close> started in
  \<open>/work\<close>, with a suitecloud command that fails, ends with status 1 in \<open>/work/out\<close>, and
  the only change of directory of the run is the one into \<open>/work/out\<close>.
\<close>

theorem C7_chdir_not_restored:
  "cwd (start [''Acme\<newline>'', ''\<newline>'', ''jdoe@x.com\<newline>'']) = ''/work''
   \<and> runInit asciiOnly failingCreate demoFlags
         (start [''Acme\<newline>'', ''\<newline>'', ''jdoe@x.com\<newline>''])
       = (\<lparr>stdin = [], cwd = ''/work/out'',
           history = [Print ''Enter company name'', Print '': '',
                      Print ''Enter user name'', Print '' (default: jdoe)'', Print '': '',
                      Print ''Enter user email'', Print '': '',
                      Print ''Creating project 'demo' (type: ACCOUNTCUSTOMIZATION)...\<newline>'',
                      Chdir ''/work/out'',
                      Run ''suitecloud''
                        [''project:create'', ''--type'', ''ACCOUNTCUSTOMIZATION'',
                         ''--projectname'', ''demo'']
                        [],
                      Print ''Error creating project: exit status 1\<newline>'']\<rparr>,
          Exit 1)"
  unfolding runInit_def
    bind_Return[where m="runInit_inputs asciiOnly failingCreate demoFlags", OF init_inputs_demo]
    init_create_demo
  by (simp add: start_def)

subsection \<open>The folder catalog\<close>

lemma foldl_folders:
  "foldl (\<lambda>folders entry. case entry of (name, child) \<Rightarrow>
            if P child then (folders @ [g name]) @ h name child else folders) acc entries
   = acc @ concat (map (\<lambda>entry. case entry of (name, child) \<Rightarrow>
                          if P child then g name # h name child else []) entries)"
  by (induction entries arbitrary: acc) (auto split: prod.splits)

lemma findAllFolders_Directory:
  "findAllFolders baseDir relativePath (Directory entries)
   = concat (map (\<lambda>entry. case entry of (name, child) \<Rightarrow>
                    if IsDir child
                    then folderOption baseDir relativePath name
                         # findAllFolders baseDir (entryRelativePath relativePath name) child
                    else []) entries)"
  unfolding findAllFolders.simps Let_def folderOption_def entryRelativePath_def
  by (rule foldl_folders[where acc="[]", simplified])

lemma relativePathOf_snoc:
  "relativePathOf (names @ [name]) = entryRelativePath (relativePathOf names) name"
  by (simp add: relativePathOf_def)

lemma folderOptionAt_snoc:
  "folderOptionAt baseDir (names @ [name]) = folderOption baseDir (relativePathOf names) name"
  by (simp add: folderOptionAt_def)

lemma findAllFolders_preorder:
  "findAllFolders baseDir (relativePathOf names) node
   = map (folderOptionAt baseDir) (preorder names node)"
proof (induction node arbitrary: names)
  case (Directory entries)
  have "\<And>name child. (name, child) \<in> set entries \<Longrightarrow>
          findAllFolders baseDir (relativePathOf (names @ [name])) child
          = map (folderOptionAt baseDir) (preorder (names @ [name]) child)"
    by (rule Directory.IH) auto
  then show ?case
    unfolding findAllFolders_Directory
    by (auto simp add: map_concat relativePathOf_snoc folderOptionAt_snoc
        intro!: arg_cong[where f=concat] split: prod.splits)
qed simp_all

lemma findAllFolders_append:
  "findAllFolders baseDir relativePath (Directory (earlier @ later))
   = findAllFolders baseDir relativePath (Directory earlier)
     @ findAllFolders baseDir relativePath (Directory later)"
  unfolding findAllFolders_Directory by simp

lemma findAllFolders_no_subdirectories:
  "list_all (\<lambda>entry. \<not> IsDir (snd entry)) entries
   \<Longrightarrow> findAllFolders baseDir relativePath (Directory entries) = []"
  unfolding findAllFolders_Directory by (induction entries) (auto split: prod.splits)


lemma preorder_below:
  "p \<in> set (preorder names node) \<Longrightarrow> strict_prefix names p"
proof (induction node arbitrary: names)
  case (Directory entries)
  from Directory.prems obtain name child
    where e: "(name, child) \<in> set entries" and d: "IsDir child"
      and p: "p = names @ [name] \<or> p \<in> set (preorder (names @ [name]) child)"
    by (auto split: if_splits)
  from p show ?case
  proof
    assume "p = names @ [name]"
    then show ?thesis by (simp add: strict_prefix_def)
  next
    assume "p \<in> set (preorder (names @ [name]) child)"
    with e have "strict_prefix (names @ [name]) p"
      by (intro Directory.IH) auto
    then show ?thesis
      unfolding strict_prefix_def prefix_def by auto
  qed
qed simp_all


lemma sorted_blocks:
  assumes "distinct (map fst entries)"
    and "\<And>name child. (name, child) \<in> set entries \<Longrightarrow>
           sorted_wrt (\<lambda>p q. \<not> strict_prefix q p) (block name child)"
    and "\<And>name child p. (name, child) \<in> set entries \<Longrightarrow> p \<in> set (block name child) \<Longrightarrow>
           prefix (names @ [name]) p"
  shows "sorted_wrt (\<lambda>p q. \<not> strict_prefix q p)
           (concat (map (\<lambda>entry. case entry of (name, child) \<Rightarrow> block name child) entries))"
  using assms
proof (induction entries)
  case Nil
  show ?case by simp
next
  case (Cons entry entries)
  obtain name child where entry: "entry = (name, child)"
    by (cases entry)
  have tl: "sorted_wrt (\<lambda>p q. \<not> strict_prefix q p)
           (concat (map (\<lambda>entry. case entry of (name, child) \<Rightarrow> block name child) entries))"
  proof (rule Cons.IH)
    show "distinct (map fst entries)"
      using Cons.prems(1) by simp
  next
    fix name child
    assume "(name, child) \<in> set entries"
    then show "sorted_wrt (\<lambda>p q. \<not> strict_prefix q p) (block name child)"
      by (intro Cons.prems(2)) simp
  next
    fix name child p
    assume "(name, child) \<in> set entries" and "p \<in> set (block name child)"
    then show "prefix (names @ [name]) p"
      by (intro Cons.prems(3)) simp_all
  qed
  have hd: "sorted_wrt (\<lambda>p q. \<not> strict_prefix q p) (block name child)"
    using Cons.prems(2)[of name child] entry by simp
  have apart: "\<not> strict_prefix q p"
    if p: "p \<in> set (block name child)"
      and q: "q \<in> set (concat (map (\<lambda>entry. case entry of (name, child) \<Rightarrow> block name child) entries))"
    for p q
  proof
    assume less: "strict_prefix q p"
    from q obtain name' child' where e': "(name', child') \<in> set entries"
      and q': "q \<in> set (block name' child')"
      by auto
    from Cons.prems(1) entry e' have ne: "name' \<noteq> name"
      by force
    have "prefix (names @ [name]) p"
      using Cons.prems(3)[of name child p] entry p by simp
    moreover have "prefix (names @ [name']) q"
      using Cons.prems(3)[of name' child' q] e' q' by simp
    with less have "prefix (names @ [name']) p"
      unfolding strict_prefix_def prefix_def by auto
    ultimately have "prefix (names @ [name]) (names @ [name']) \<or> prefix (names @ [name']) (names @ [name])"
      by (rule prefix_same_cases)
    with ne show False by auto
  qed
  show ?case
    unfolding entry using hd tl apart by (simp add: sorted_wrt_append)
qed

lemma preorder_sorted:
  "distinctNames node \<Longrightarrow> sorted_wrt (\<lambda>p q. \<not> strict_prefix q p) (preorder names node)"
proof (induction node arbitrary: names)
  case (Directory entries)
  have d: "distinct (map fst entries)"
    using Directory.prems by simp
  have sub: "distinctNames child" if "(name, child) \<in> set entries" for name child
    using Directory.prems that by (auto simp add: list_all_iff)
  show ?case
    unfolding preorder.simps
  proof (rule sorted_blocks[where names=names, OF d])
    fix name child
    assume e: "(name, child) \<in> set entries"
    have "sorted_wrt (\<lambda>p q. \<not> strict_prefix q p) (preorder (names @ [name]) child)"
      using e sub[OF e] by (intro Directory.IH) auto
    moreover have "\<not> strict_prefix q (names @ [name])"
      if "q \<in> set (preorder (names @ [name]) child)" for q
      using preorder_below[OF that] by (rule prefix_order.less_not_sym)
    ultimately show "sorted_wrt (\<lambda>p q. \<not> strict_prefix q p)
        (if IsDir child then (names @ [name]) # preorder (names @ [name]) child else [])"
      by simp
  next
    fix name child p
    assume "(name, child) \<in> set entries"
      and "p \<in> set (if IsDir child then (names @ [name]) # preorder (names @ [name]) child else [])"
    then show "prefix (names @ [name]) p"
      using preorder_below[of p "names @ [name]" child]
      by (auto simp add: strict_prefix_def split: if_splits)
  qed
qed simp_all

text \<open>
  C4: the catalog of \<open>findAllFolders\<close> is the pre-order list of the directories below the
  root. \<open>preorder\<close> lists the directories by their names from the root down: each
  subdirectory of a listing, in the order of the listing, followed at once by the
  pre-order list of what is below it; a directory that cannot be read has nothing below
  it. The catalog has the folder option of each of these directories, in that order.
  When the names of every listing are distinct, no directory of the list comes after one
  that is below it. The entries of a directory of the listing come after those of the
  earlier siblings and before those of the later ones, the directory itself first; what
  is not a directory gives no entry. An unreadable directory gives the empty catalog and
  no error, and so does a directory with no subdirectory.
\<close>

theorem C4_folder_catalog:
  "findAllFolders baseDir (relativePathOf names) node
     = map (folderOptionAt baseDir) (preorder names node)
   \<and> (distinctNames node \<longrightarrow>
        sorted_wrt (\<lambda>p q. \<not> strict_prefix q p) (preorder names node))
   \<and> findAllFolders baseDir relativePath (Directory (earlier @ (name, child) # later))
       = findAllFolders baseDir relativePath (Directory earlier)
         @ (if IsDir child
            then folderOption baseDir relativePath name
                 # findAllFolders baseDir (entryRelativePath relativePath name) child
            else [])
         @ findAllFolders baseDir relativePath (Directory later)
   \<and> findAllFolders baseDir relativePath (Unreadable err) = []
   \<and> (list_all (\<lambda>entry. \<not> IsDir (snd entry)) entries \<longrightarrow>
        findAllFolders baseDir relativePath (Directory entries) = [])"
proof (intro conjI impI)
  show "findAllFolders baseDir (relativePathOf names) node
          = map (folderOptionAt baseDir) (preorder names node)"
    by (rule findAllFolders_preorder)
next
  assume "distinctNames node"
  then show "sorted_wrt (\<lambda>p q. \<not> strict_prefix q p) (preorder names node)"
    by (rule preorder_sorted)
next
  have "findAllFolders baseDir relativePath (Directory ((name, child) # later))
        = (if IsDir child
            then folderOption baseDir relativePath name
                 # findAllFolders baseDir (entryRelativePath relativePath name) child
            else [])
          @ findAllFolders baseDir relativePath (Directory later)"
    unfolding findAllFolders_Directory by simp
  then show "findAllFolders baseDir relativePath (Directory (earlier @ (name, child) # later))
       = findAllFolders baseDir relativePath (Directory earlier)
         @ (if IsDir child
            then folderOption baseDir relativePath name
                 # findAllFolders baseDir (entryRelativePath relativePath name) child
            else [])
         @ findAllFolders baseDir relativePath (Directory later)"
    unfolding findAllFolders_append by simp
next
  show "findAllFolders baseDir relativePath (Unreadable err) = []"
    by simp
next
  assume "list_all (\<lambda>entry. \<not> IsDir (snd entry)) entries"
  then show "findAllFolders baseDir relativePath (Directory entries) = []"
    by (rule findAllFolders_no_subdirectories)
qed

lemma sample_preorder:
  "preorder [] sampleTree = [[''a''], [''a'', ''b''], [''c''], [''d'']]"
  by (simp add: sampleTree_def)

lemma sample_options:
  "map (folderOptionAt ''SuiteScripts'') [[''a''], [''a'', ''b''], [''c''], [''d'']]
   = [\<lparr>Path = ''a'', Display = ''a'', FullPath = ''SuiteScripts/a''\<rparr>,
      \<lparr>Path = ''a/b'', Display = ''  b (a/b)'', FullPath = ''SuiteScripts/a/b''\<rparr>,
      \<lparr>Path = ''c'', Display = ''c'', FullPath = ''SuiteScripts/c''\<rparr>,
      \<lparr>Path = ''d'', Display = ''d'', FullPath = ''SuiteScripts/d''\<rparr>]"
  by (simp add: folderOptionAt_def folderOption_def relativePathOf_def entryRelativePath_def
      Join_def Clean_def joinWith_def cleanStep_def Repeat_def Let_def)

text \<open>C4 on a tree with the directories \<open>a\<close>, \<open>a/b\<close>, \<open>c\<close>, which cannot be read, and
  \<open>d\<close>, and the file \<open>a/f.ts\<close>.\<close>

theorem C4_folder_catalog_witness:
  "findAllFolders ''SuiteScripts'' [] sampleTree
     = [\<lparr>Path = ''a'', Display = ''a'', FullPath = ''SuiteScripts/a''\<rparr>,
        \<lparr>Path = ''a/b'', Display = ''  b (a/b)'', FullPath = ''SuiteScripts/a/b''\<rparr>,
        \<lparr>Path = ''c'', Display = ''c'', FullPath = ''SuiteScripts/c''\<rparr>,
        \<lparr>Path = ''d'', Display = ''d'', FullPath = ''SuiteScripts/d''\<rparr>]
   \<and> distinctNames sampleTree
   \<and> sorted_wrt (\<lambda>p q. \<not> strict_prefix q p) [[''a''], [''a'', ''b''], [''c''], [''d'']]
   \<and> list_all (\<lambda>entry. \<not> IsDir (snd entry)) [(''f.ts'', NotDir)]
   \<and> findAllFolders ''SuiteScripts'' ''a'' (Directory [(''f.ts'', NotDir)]) = []"
proof -
  have d: "distinctNames sampleTree"
    by (simp add: sampleTree_def)
  have n: "list_all (\<lambda>entry. \<not> IsDir (snd entry)) [(''f.ts'', NotDir)]"
    by simp
  have r: "relativePathOf [] = []"
    by (simp add: relativePathOf_def)
  note t = C4_folder_catalog[where baseDir="''SuiteScripts''" and names="[]"
      and node=sampleTree and relativePath="''a''" and entries="[(''f.ts'', NotDir)]",
      unfolded sample_preorder sample_options r]
  from t d n show ?thesis
    by blast
qed

end
